theory Spec2Isabelle
  imports Main
begin

section \<open>Credential and token utilities (lib/auth.ts)\<close>

subsection \<open>Secure random source\<close>

text \<open>
  \<^verbatim>\<open>crypto.randomInt(min, max)\<close> of the Node runtime returns an integer \<open>n\<close> with
  \<open>min \<le> n < max\<close>. The runtime is not part of the repository; its entropy is a
  parameter: \<open>rnd k\<close> is the raw word behind the \<open>k\<close>-th call, reduced into the requested
  range. Every outcome of a call is reached by some \<open>rnd\<close>, and the calls are numbered in
  program order.
\<close>

type_synonym entropy = "nat \<Rightarrow> nat"

definition randomInt :: "entropy \<Rightarrow> nat \<Rightarrow> nat \<Rightarrow> nat \<Rightarrow> nat" where
  "randomInt rnd k lo hi = lo + rnd k mod (hi - lo)"

subsection \<open>generateSecurePassword\<close>

definition uppercase :: string where
  "uppercase = ''ABCDEFGHIJKLMNOPQRSTUVWXYZ''"

definition lowercase :: string where
  "lowercase = ''abcdefghijklmnopqrstuvwxyz''"

definition numbers :: string where
  "numbers = ''0123456789''"

definition special :: string where
  "special = ''@#$%&*!?''"

text \<open>
  \<^verbatim>\<open>getRandom(chars, count)\<close>: \<open>count\<close> draws, in order, each indexing \<open>chars\<close>.
  The first draw of the call is draw number \<open>k\<close>.
\<close>

definition getRandom :: "entropy \<Rightarrow> nat \<Rightarrow> string \<Rightarrow> nat \<Rightarrow> string" where
  "getRandom rnd k chars count =
     map (\<lambda>i. chars ! randomInt rnd (k + i) 0 (length chars)) [0..<count]"

text \<open>
  The shuffle loop \<^verbatim>\<open>for (let i = password.length - 1; i > 0; i--)\<close>: the
  argument is the current \<open>i\<close>; the body draws \<open>j\<close> in \<open>[0, i + 1)\<close> and swaps the
  entries \<open>i\<close> and \<open>j\<close> (both right-hand sides are read before either is written).
\<close>

fun shuffle :: "entropy \<Rightarrow> nat \<Rightarrow> nat \<Rightarrow> string \<Rightarrow> string" where
  "shuffle rnd k 0 password = password"
| "shuffle rnd k (Suc n) password =
     (let i = Suc n;
          j = randomInt rnd k 0 (i + 1)
      in shuffle rnd (Suc k) n (password[i := password ! j, j := password ! i]))"

definition generateSecurePassword :: "entropy \<Rightarrow> string" where
  "generateSecurePassword rnd =
     (let parts = [getRandom rnd 0 uppercase 3,
                   getRandom rnd 3 numbers 3,
                   getRandom rnd 6 special 2,
                   getRandom rnd 8 lowercase 4];
          password = concat parts
      in shuffle rnd 12 (length password - 1) password)"

subsection \<open>validatePassword\<close>

text \<open>The character classes of the three regular expressions.\<close>

definition is_AZ :: "char \<Rightarrow> bool" where
  "is_AZ c = (65 \<le> (of_char c :: nat) \<and> (of_char c :: nat) \<le> 90)"

definition is_az :: "char \<Rightarrow> bool" where
  "is_az c = (97 \<le> (of_char c :: nat) \<and> (of_char c :: nat) \<le> 122)"

definition is_09 :: "char \<Rightarrow> bool" where
  "is_09 c = (48 \<le> (of_char c :: nat) \<and> (of_char c :: nat) \<le> 57)"

definition is_symbol :: "char \<Rightarrow> bool" where
  "is_symbol c = (\<not> is_AZ c \<and> \<not> is_az c \<and> \<not> is_09 c)"

text \<open>
  The four messages of \<^verbatim>\<open>validatePassword\<close>, in the order of its checks. The length
  is the one JavaScript counts as long as the password is made of ASCII characters, as
  the generated ones are.
\<close>

datatype password_error = TooShort | NoUppercase | NoDigit | NoSpecial

record validation =
  isValid :: bool
  error :: "password_error option"

definition validatePassword :: "string \<Rightarrow> validation" where
  "validatePassword password =
     (if length password < 8 then \<lparr>isValid = False, error = Some TooShort\<rparr>
      else if \<not> list_ex is_AZ password then \<lparr>isValid = False, error = Some NoUppercase\<rparr>
      else if \<not> list_ex is_09 password then \<lparr>isValid = False, error = Some NoDigit\<rparr>
      else if \<not> list_ex is_symbol password then \<lparr>isValid = False, error = Some NoSpecial\<rparr>
      else \<lparr>isValid = True, error = None\<rparr>)"

subsection \<open>JSON values and accented letters\<close>

datatype json =
  JNull
  | JBool bool
  | JStr string
  | JDate nat
  | JArr "json list"
  | JObj "(string \<times> json) list"

text \<open>
  The messages of the handlers are French; a \<open>string\<close> holds bytes, so an accented
  letter is its UTF-8 encoding.
\<close>

definition e_acute :: string where
  "e_acute = [CHR 0xC3, CHR 0xA9]"

definition e_grave :: string where
  "e_grave = [CHR 0xC3, CHR 0xA8]"

definition o_circ :: string where
  "o_circ = [CHR 0xC3, CHR 0xB4]"

subsection \<open>Runtime: environment variables and library functions\<close>

text \<open>
  The decoded payload of a token is a JSON object; the code reads and writes string
  fields only, so it is an association list from field names to strings, and a field
  access \<^verbatim>\<open>decoded.f\<close> is \<open>map_of decoded f\<close> (\<open>None\<close> for \<^verbatim>\<open>undefined\<close>).
\<close>

type_synonym claims = "(string \<times> string) list"

text \<open>
  What the code takes from outside the repository: the process environment and the
  libraries jsonwebtoken, crypto, bcrypt and zod. A theorem about a handler holds for
  every runtime.
  \<^item> \<open>jwt_sign payload secret lifetime now\<close> is \<^verbatim>\<open>jwt.sign(payload, secret, {expiresIn})\<close>,
    the lifetime in seconds;
  \<^item> \<open>jwt_verify token secret now\<close> is \<^verbatim>\<open>jwt.verify(token, secret)\<close> at the instant
    \<open>now\<close>: \<open>None\<close> when it throws (malformed, wrong signature, expired);
  \<^item> \<open>sha256_hex\<close> is \<^verbatim>\<open>crypto.createHash("sha256").update(t).digest("hex")\<close>;
  \<^item> \<open>bcrypt_compare\<close> is \<^verbatim>\<open>bcrypt.compare\<close>;
  \<^item> \<open>zod_email\<close> is the test behind \<^verbatim>\<open>z.string().email()\<close> and \<open>zod_errors\<close> the
    issue list zod reports for a rejected body.
\<close>

record runtime =
  env_JWT_SECRET :: "string option"
  env_NODE_ENV :: "string option"
  jwt_sign :: "claims \<Rightarrow> string \<Rightarrow> nat \<Rightarrow> nat \<Rightarrow> string"
  jwt_verify :: "string \<Rightarrow> string \<Rightarrow> nat \<Rightarrow> claims option"
  sha256_hex :: "string \<Rightarrow> string"
  bcrypt_compare :: "string \<Rightarrow> string \<Rightarrow> bool"
  zod_email :: "string \<Rightarrow> bool"
  zod_errors :: "json \<Rightarrow> json"

text \<open>
  JavaScript truthiness of a value that is a string or \<^verbatim>\<open>undefined\<close>/\<^verbatim>\<open>null\<close>:
  only a non-empty string is truthy. \<open>or_else v d\<close> is \<^verbatim>\<open>v || d\<close>.
\<close>

fun truthy :: "string option \<Rightarrow> bool" where
  "truthy None = False"
| "truthy (Some s) = (s \<noteq> [])"

fun or_else :: "string option \<Rightarrow> string \<Rightarrow> string" where
  "or_else None d = d"
| "or_else (Some s) d = (if s = [] then d else s)"

text \<open>
  \<^verbatim>\<open>const JWT_SECRET = process.env.JWT_SECRET || "..."\<close>: the fallback of
  lib/auth.ts differs from the one of the middleware and of the demo and admin routes.
\<close>

definition JWT_SECRET_lib :: "runtime \<Rightarrow> string" where
  "JWT_SECRET_lib rt = or_else (env_JWT_SECRET rt) ''secret-de-developpement-a-changer''"

definition JWT_SECRET :: "runtime \<Rightarrow> string" where
  "JWT_SECRET rt = or_else (env_JWT_SECRET rt) ''onlytrack-super-secret''"

text \<open>\<^verbatim>\<open>JWT_EXPIRATION = "7d"\<close>, in seconds.\<close>

definition JWT_EXPIRATION :: nat where
  "JWT_EXPIRATION = 7 * 24 * 60 * 60"

definition generateJWT :: "runtime \<Rightarrow> nat \<Rightarrow> claims \<Rightarrow> string" where
  "generateJWT rt now payload = jwt_sign rt payload (JWT_SECRET_lib rt) JWT_EXPIRATION now"

definition verifyJWT :: "runtime \<Rightarrow> nat \<Rightarrow> string \<Rightarrow> claims option" where
  "verifyJWT rt now token = jwt_verify rt token (JWT_SECRET_lib rt) now"

definition hashToken :: "runtime \<Rightarrow> string \<Rightarrow> string" where
  "hashToken rt token = sha256_hex rt token"

section \<open>Relational store (schema.ts, db.ts)\<close>

text \<open>
  Rows carry the columns of the schema; instants are milliseconds since the epoch.
  Field names are prefixed by the table, since several tables share column names.
\<close>

record utilisateur =
  u_id :: string
  u_prenom :: string
  u_nom :: string
  u_email :: string
  u_motDePasseHash :: string
  u_role :: string
  u_agenceId :: string
  u_emailVerifie :: bool
  u_tokenVerification :: "string option"
  u_tokenResetPassword :: "string option"
  u_dateCreation :: nat
  u_derniereConnexion :: "nat option"
  u_actif :: bool

record session =
  s_id :: string
  s_utilisateurId :: string
  s_tokenHash :: string
  s_dateCreation :: nat
  s_dateExpiration :: nat
  s_adresseIp :: "string option"
  s_userAgent :: "string option"

record superAdmin =
  sa_id :: string
  sa_email :: string
  sa_motDePasse :: string
  sa_nom :: string
  sa_prenom :: string
  sa_actif :: bool
  sa_dateCreation :: nat
  sa_derniereConnexion :: "nat option"

record accesTemporaire =
  a_id :: string
  a_agenceId :: string
  a_nom :: string
  a_email :: "string option"
  a_token :: string
  a_dateCreation :: nat
  a_dateExpiration :: "nat option"
  a_actif :: bool
  a_creePar :: string

text \<open>Of an agency the modelled handlers read the name only.\<close>

record agence =
  ag_id :: string
  ag_nom :: string

text \<open>
  A table is its rows, in the order the store returns them, or is unreachable: every
  statement on an unreachable table throws, which is how the handlers reach their
  \<^verbatim>\<open>catch\<close> blocks.
\<close>

datatype 'r table = Unreachable | Table "'r list"

datatype 'a attempt = Threw | Returned 'a

record db =
  agences :: "agence table"
  utilisateurs :: "utilisateur table"
  sessions :: "session table"
  superAdmins :: "superAdmin table"
  accesTemporaires :: "accesTemporaire table"

text \<open>
  \<^verbatim>\<open>eq(column, value)\<close>: the value may be \<^verbatim>\<open>undefined\<close>; it reaches the store as
  \<^verbatim>\<open>NULL\<close>, to which no row compares equal.
\<close>

fun sql_eq :: "string \<Rightarrow> string option \<Rightarrow> bool" where
  "sql_eq c None = False"
| "sql_eq c (Some v) = (c = v)"

text \<open>\<^verbatim>\<open>const [row] = await db.select().from(t).where(p).limit(1)\<close>\<close>

fun select_first :: "('r \<Rightarrow> bool) \<Rightarrow> 'r table \<Rightarrow> 'r option attempt" where
  "select_first p Unreachable = Threw"
| "select_first p (Table rows) = Returned (find p rows)"

text \<open>\<^verbatim>\<open>await db.insert(t).values(row)\<close>\<close>

fun insert_values :: "'r \<Rightarrow> 'r table \<Rightarrow> 'r table attempt" where
  "insert_values row Unreachable = Threw"
| "insert_values row (Table rows) = Returned (Table (rows @ [row]))"

text \<open>\<^verbatim>\<open>await db.update(t).set(f).where(p)\<close>\<close>

fun update_where :: "('r \<Rightarrow> 'r) \<Rightarrow> ('r \<Rightarrow> bool) \<Rightarrow> 'r table \<Rightarrow> 'r table attempt" where
  "update_where f p Unreachable = Threw"
| "update_where f p (Table rows) = Returned (Table (map (\<lambda>r. if p r then f r else r) rows))"

text \<open>\<^verbatim>\<open>await db.delete(t).where(p)\<close>\<close>

fun delete_where :: "('r \<Rightarrow> bool) \<Rightarrow> 'r table \<Rightarrow> 'r table attempt" where
  "delete_where p Unreachable = Threw"
| "delete_where p (Table rows) = Returned (Table (filter (\<lambda>r. \<not> p r) rows))"

section \<open>Requests and responses (Express)\<close>

text \<open>The identity a middleware attaches as \<^verbatim>\<open>req.user\<close>.\<close>

record req_user =
  ru_id :: string
  ru_email :: string
  ru_role :: string
  ru_agenceId :: string
  ru_isDemo :: "bool option"
  ru_demoNom :: "string option"

record request =
  req_cookies :: "string \<rightharpoonup> string"
  req_params :: "string \<rightharpoonup> string"
  req_body :: json
  req_ip :: "string option"
  req_userAgent :: "string option"
  req_user :: "req_user option"
  req_agenceId :: "string option"
  req_admin :: "superAdmin option"

record cookie_options =
  httpOnly :: bool
  secure :: bool
  sameSite :: string
  path :: "string option"
  maxAge :: nat

datatype cookie_op =
  SetCookie string string cookie_options
  | ClearCookie string

text \<open>
  A response: its status (200 when the handler calls \<^verbatim>\<open>res.json\<close> alone), its JSON
  body and its cookie instructions in the order the handler issued them.
\<close>

record response =
  res_status :: nat
  res_body :: json
  res_cookies :: "cookie_op list"

definition json_response :: "nat \<Rightarrow> json \<Rightarrow> response" where
  "json_response st b = \<lparr>res_status = st, res_body = b, res_cookies = []\<rparr>"

definition error_response :: "nat \<Rightarrow> string \<Rightarrow> response" where
  "error_response st m = json_response st (JObj [(''error'', JStr m)])"

text \<open>A middleware either calls \<^verbatim>\<open>next()\<close> on the request or answers itself.\<close>

datatype outcome = Next request | Respond response

section \<open>Authentication middleware (authenticate, requireRole, authenticateOptional)\<close>

text \<open>
  The demo block of \<^verbatim>\<open>authenticate\<close>: \<open>Some\<close> the request with the virtual user when
  the block reaches \<^verbatim>\<open>return next()\<close>, \<open>None\<close> when control leaves the block, by
  a failed test or through the empty \<^verbatim>\<open>catch\<close>.
\<close>

definition demo_user :: "accesTemporaire \<Rightarrow> req_user" where
  "demo_user acces =
     \<lparr>ru_id = ''demo-'' @ a_id acces,
      ru_email = or_else (a_email acces) ''demo@onlytrack.io'',
      ru_role = ''member'',
      ru_agenceId = a_agenceId acces,
      ru_isDemo = Some True,
      ru_demoNom = Some (a_nom acces)\<rparr>"

definition authenticate_demo :: "runtime \<Rightarrow> nat \<Rightarrow> db \<Rightarrow> request \<Rightarrow> request option" where
  "authenticate_demo rt now d req =
     (case req_cookies req ''demo_token'' of
        None \<Rightarrow> None
      | Some demoToken \<Rightarrow>
          if demoToken = [] then None
          else
            (case jwt_verify rt demoToken (JWT_SECRET rt) now of
               None \<Rightarrow> None
             | Some decoded \<Rightarrow>
                 if map_of decoded ''type'' = Some ''demo'' then
                   (case select_first (\<lambda>a. sql_eq (a_id a) (map_of decoded ''accesId''))
                           (accesTemporaires d) of
                      Threw \<Rightarrow> None
                    | Returned None \<Rightarrow> None
                    | Returned (Some acces) \<Rightarrow>
                        if a_actif acces \<and>
                           (case a_dateExpiration acces of
                              None \<Rightarrow> True
                            | Some dateExpiration \<Rightarrow> dateExpiration > now)
                        then Some (req\<lparr>req_user := Some (demo_user acces),
                                       req_agenceId := Some (a_agenceId acces)\<rparr>)
                        else None)
                 else None))"

definition user_of :: "utilisateur \<Rightarrow> req_user" where
  "user_of u =
     \<lparr>ru_id = u_id u,
      ru_email = u_email u,
      ru_role = u_role u,
      ru_agenceId = u_agenceId u,
      ru_isDemo = None,
      ru_demoNom = None\<rparr>"

text \<open>The rest of \<^verbatim>\<open>authenticate\<close>, from the read of the \<^verbatim>\<open>auth_token\<close> cookie on.\<close>

definition authenticate_user :: "runtime \<Rightarrow> nat \<Rightarrow> db \<Rightarrow> request \<Rightarrow> outcome" where
  "authenticate_user rt now d req =
     (case req_cookies req ''auth_token'' of
        None \<Rightarrow>
          Respond (error_response 401 (''Non authentifi'' @ e_acute @ '' - Token manquant''))
      | Some token \<Rightarrow>
          if token = [] then
            Respond (error_response 401 (''Non authentifi'' @ e_acute @ '' - Token manquant''))
          else
            (case verifyJWT rt now token of
               None \<Rightarrow>
                 Respond (error_response 401
                            (''Non authentifi'' @ e_acute @ '' - Token invalide''))
             | Some payload \<Rightarrow>
                 (case select_first
                         (\<lambda>s. sql_eq (s_utilisateurId s) (map_of payload ''userId'') \<and>
                              s_dateExpiration s > now)
                         (sessions d) of
                    Threw \<Rightarrow>
                      Respond (error_response 500
                                 ''Erreur serveur lors de l'authentification'')
                  | Returned None \<Rightarrow>
                      Respond (error_response 401 (''Session expir'' @ e_acute @ ''e''))
                  | Returned (Some session) \<Rightarrow>
                      (case select_first (\<lambda>u. sql_eq (u_id u) (map_of payload ''userId''))
                              (utilisateurs d) of
                         Threw \<Rightarrow>
                           Respond (error_response 500
                                      ''Erreur serveur lors de l'authentification'')
                       | Returned None \<Rightarrow>
                           Respond (error_response 401 ''Utilisateur inactif ou inexistant'')
                       | Returned (Some user) \<Rightarrow>
                           if \<not> u_actif user then
                             Respond (error_response 401 ''Utilisateur inactif ou inexistant'')
                           else Next (req\<lparr>req_user := Some (user_of user),
                                          req_agenceId := Some (u_agenceId user)\<rparr>)))))"

definition authenticate :: "runtime \<Rightarrow> nat \<Rightarrow> db \<Rightarrow> request \<Rightarrow> outcome" where
  "authenticate rt now d req =
     (case authenticate_demo rt now d req of
        Some req' \<Rightarrow> Next req'
      | None \<Rightarrow> authenticate_user rt now d req)"

text \<open>\<^verbatim>\<open>requireRole(...roles)\<close>\<close>

definition requireRole :: "string list \<Rightarrow> request \<Rightarrow> outcome" where
  "requireRole roles req =
     (case req_user req of
        None \<Rightarrow> Respond (error_response 401 (''Non authentifi'' @ e_acute))
      | Some user \<Rightarrow>
          if \<not> List.member roles (ru_role user) then
            Respond (json_response 403
              (JObj [(''error'', JStr (''Acc'' @ e_grave @ ''s refus'' @ e_acute @ '' - R''
                                        @ o_circ @ ''le insuffisant'')),
                     (''requiredRoles'', JArr (map JStr roles)),
                     (''yourRole'', JStr (ru_role user))]))
          else Next req)"

definition authenticateOptional :: "runtime \<Rightarrow> nat \<Rightarrow> db \<Rightarrow> request \<Rightarrow> outcome" where
  "authenticateOptional rt now d req =
     (case req_cookies req ''auth_token'' of
        None \<Rightarrow> Next req
      | Some token \<Rightarrow>
          if token = [] then Next req
          else
            (case verifyJWT rt now token of
               None \<Rightarrow> Next req
             | Some payload \<Rightarrow>
                 (case select_first (\<lambda>u. sql_eq (u_id u) (map_of payload ''userId''))
                         (utilisateurs d) of
                    Threw \<Rightarrow> Next req
                  | Returned None \<Rightarrow> Next req
                  | Returned (Some user) \<Rightarrow>
                      if u_actif user then
                        Next (req\<lparr>req_user := Some (user_of user),
                                  req_agenceId := Some (u_agenceId user)\<rparr>)
                      else Next req)))"

section \<open>Administrator guard (routes/admin-auth.ts)\<close>

definition requireAdmin :: "runtime \<Rightarrow> nat \<Rightarrow> db \<Rightarrow> request \<Rightarrow> outcome" where
  "requireAdmin rt now d req =
     (case req_cookies req ''admin_token'' of
        None \<Rightarrow> Respond (error_response 401 (''Non authentifi'' @ e_acute))
      | Some token \<Rightarrow>
          if token = [] then Respond (error_response 401 (''Non authentifi'' @ e_acute))
          else
            (case jwt_verify rt token (JWT_SECRET rt) now of
               None \<Rightarrow> Respond (error_response 401 ''Token invalide'')
             | Some decoded \<Rightarrow>
                 if map_of decoded ''type'' \<noteq> Some ''admin'' then
                   Respond (error_response 401 (''Acc'' @ e_grave @ ''s non autoris'' @ e_acute))
                 else
                   (case select_first (\<lambda>a. sql_eq (sa_id a) (map_of decoded ''id''))
                           (superAdmins d) of
                      Threw \<Rightarrow> Respond (error_response 401 ''Token invalide'')
                    | Returned None \<Rightarrow>
                        Respond (error_response 401
                          (''Compte non trouv'' @ e_acute @ '' ou d'' @ e_acute @ ''sactiv''
                           @ e_acute))
                    | Returned (Some admin) \<Rightarrow>
                        if \<not> sa_actif admin then
                          Respond (error_response 401
                            (''Compte non trouv'' @ e_acute @ '' ou d'' @ e_acute @ ''sactiv''
                             @ e_acute))
                        else Next (req\<lparr>req_admin := Some admin\<rparr>))))"

section \<open>Login and logout (the routes under /api/auth)\<close>

text \<open>
  \<^verbatim>\<open>connexionSchema.parse(req.body)\<close>: the body is an object whose \<open>email\<close> is a string
  that zod takes for an address and whose \<open>password\<close> is a string; \<open>None\<close> when zod
  throws.
\<close>

definition connexionSchema_parse :: "runtime \<Rightarrow> json \<Rightarrow> (string \<times> string) option" where
  "connexionSchema_parse rt b =
     (case b of
        JObj props \<Rightarrow>
          (case (map_of props ''email'', map_of props ''password'') of
             (Some (JStr email), Some (JStr password)) \<Rightarrow>
               if zod_email rt email then Some (email, password) else None
           | _ \<Rightarrow> None)
      | _ \<Rightarrow> None)"

definition auth_cookie_options :: "runtime \<Rightarrow> cookie_options" where
  "auth_cookie_options rt =
     \<lparr>httpOnly = True,
      secure = (env_NODE_ENV rt = Some ''production''),
      sameSite = ''strict'',
      path = None,
      maxAge = 7 * 24 * 60 * 60 * 1000\<rparr>"

text \<open>
  \<^verbatim>\<open>POST /api/auth/connexion\<close>. \<open>sessionId\<close> is the value of \<^verbatim>\<open>crypto.randomUUID()\<close>;
  the seven days that \<^verbatim>\<open>setDate(getDate() + 7)\<close> adds are taken without a clock
  change in between. The handler returns its response and the store it leaves.
\<close>

definition connexion :: "runtime \<Rightarrow> nat \<Rightarrow> string \<Rightarrow> db \<Rightarrow> request \<Rightarrow> response \<times> db" where
  "connexion rt now sessionId d req =
     (case connexionSchema_parse rt (req_body req) of
        None \<Rightarrow>
          (json_response 400
             (JObj [(''error'', JStr (''Donn'' @ e_acute @ ''es invalides'')),
                    (''details'', zod_errors rt (req_body req))]), d)
      | Some (email, password) \<Rightarrow>
          (case select_first (\<lambda>u. sql_eq (u_email u) (Some email)) (utilisateurs d) of
             Threw \<Rightarrow> (error_response 500 ''Erreur lors de la connexion'', d)
           | Returned None \<Rightarrow> (error_response 401 ''Email ou mot de passe incorrect'', d)
           | Returned (Some user) \<Rightarrow>
               if \<not> bcrypt_compare rt password (u_motDePasseHash user) then
                 (error_response 401 ''Email ou mot de passe incorrect'', d)
               else if \<not> u_emailVerifie user then
                 (json_response 403
                    (JObj [(''error'', JStr (''Veuillez v'' @ e_acute
                              @ ''rifier votre email avant de vous connecter'')),
                           (''needsEmailVerification'', JBool True)]), d)
               else if \<not> u_actif user then
                 (error_response 403 (''Compte d'' @ e_acute @ ''sactiv'' @ e_acute), d)
               else
                 (let token = generateJWT rt now
                                [(''userId'', u_id user),
                                 (''agenceId'', u_agenceId user),
                                 (''role'', u_role user)];
                      tokenHash = hashToken rt token;
                      dateExpiration = now + 7 * 24 * 60 * 60 * 1000
                  in case insert_values
                            \<lparr>s_id = sessionId,
                             s_utilisateurId = u_id user,
                             s_tokenHash = tokenHash,
                             s_dateCreation = now,
                             s_dateExpiration = dateExpiration,
                             s_adresseIp = (if truthy (req_ip req) then req_ip req else None),
                             s_userAgent =
                               (if truthy (req_userAgent req) then req_userAgent req else None)\<rparr>
                            (sessions d) of
                       Threw \<Rightarrow> (error_response 500 ''Erreur lors de la connexion'', d)
                     | Returned sessions' \<Rightarrow>
                         (case update_where (\<lambda>u. u\<lparr>u_derniereConnexion := Some now\<rparr>)
                                 (\<lambda>u. u_id u = u_id user) (utilisateurs d) of
                            Threw \<Rightarrow>
                              (error_response 500 ''Erreur lors de la connexion'',
                               d\<lparr>sessions := sessions'\<rparr>)
                          | Returned utilisateurs' \<Rightarrow>
                              (\<lparr>res_status = 200,
                                res_body =
                                  JObj [(''message'', JStr (''Connexion r'' @ e_acute @ ''ussie'')),
                                        (''user'',
                                         JObj [(''id'', JStr (u_id user)),
                                               (''prenom'', JStr (u_prenom user)),
                                               (''nom'', JStr (u_nom user)),
                                               (''email'', JStr (u_email user)),
                                               (''role'', JStr (u_role user)),
                                               (''agenceId'', JStr (u_agenceId user))])],
                                res_cookies =
                                  [ClearCookie ''demo_token'',
                                   SetCookie ''auth_token'' token (auth_cookie_options rt)]\<rparr>,
                               d\<lparr>sessions := sessions', utilisateurs := utilisateurs'\<rparr>)))))"

text \<open>
  \<^verbatim>\<open>POST /api/auth/deconnexion\<close>, mounted behind \<^verbatim>\<open>authenticate\<close>: the handler runs
  only when the middleware calls \<^verbatim>\<open>next()\<close>.
\<close>

definition deconnexion :: "runtime \<Rightarrow> nat \<Rightarrow> db \<Rightarrow> request \<Rightarrow> response \<times> db" where
  "deconnexion rt now d req =
     (case authenticate rt now d req of
        Respond r \<Rightarrow> (r, d)
      | Next req' \<Rightarrow>
          (let bye = \<lparr>res_status = 200,
                       res_body = JObj [(''message'',
                                         JStr (''D'' @ e_acute @ ''connexion r'' @ e_acute
                                               @ ''ussie''))],
                       res_cookies = [ClearCookie ''auth_token'', ClearCookie ''demo_token'']\<rparr>
           in case req_cookies req' ''auth_token'' of
                None \<Rightarrow> (bye, d)
              | Some token \<Rightarrow>
                  if token = [] then (bye, d)
                  else
                    (case delete_where (\<lambda>s. s_tokenHash s = hashToken rt token) (sessions d) of
                       Threw \<Rightarrow>
                         (error_response 500
                            (''Erreur lors de la d'' @ e_acute @ ''connexion''), d)
                     | Returned sessions' \<Rightarrow> (bye, d\<lparr>sessions := sessions'\<rparr>))))"

section \<open>Temporary access (the routes under /api/demo and /api/acces-temporaires)\<close>

text \<open>A date of a JSON body: \<^verbatim>\<open>null\<close> when the column is \<^verbatim>\<open>NULL\<close>.\<close>

fun json_date :: "nat option \<Rightarrow> json" where
  "json_date None = JNull"
| "json_date (Some t) = JDate t"

text \<open>
  \<^verbatim>\<open>GET /api/demo/validate/:token\<close>. A handler that only reads the store returns its
  response.
\<close>

definition demo_validate :: "nat \<Rightarrow> db \<Rightarrow> request \<Rightarrow> response" where
  "demo_validate now d req =
     (case select_first (\<lambda>a. sql_eq (a_token a) (req_params req ''token''))
             (accesTemporaires d) of
        Threw \<Rightarrow> error_response 500 ''Erreur serveur''
      | Returned None \<Rightarrow> error_response 404 (''Lien non trouv'' @ e_acute)
      | Returned (Some acces) \<Rightarrow>
          if \<not> a_actif acces then
            error_response 403 (''Ce lien a '' @ e_acute @ ''t'' @ e_acute @ '' r'' @ e_acute
                                @ ''voqu'' @ e_acute)
          else if (case a_dateExpiration acces of
                     None \<Rightarrow> False
                   | Some dateExpiration \<Rightarrow> dateExpiration < now) then
            error_response 403 (''Ce lien a expir'' @ e_acute)
          else
            (case select_first (\<lambda>g. sql_eq (ag_id g) (Some (a_agenceId acces))) (agences d) of
               Threw \<Rightarrow> error_response 500 ''Erreur serveur''
             | Returned agence \<Rightarrow>
                 json_response 200
                   (JObj [(''nom'', JStr (a_nom acces)),
                          (''agenceNom'', JStr (or_else (map_option ag_nom agence) ''Agence'')),
                          (''dateExpiration'', json_date (a_dateExpiration acces))])))"

definition demo_cookie_options :: "runtime \<Rightarrow> cookie_options" where
  "demo_cookie_options rt =
     \<lparr>httpOnly = True,
      secure = (env_NODE_ENV rt = Some ''production''),
      sameSite = ''lax'',
      path = Some ''/'',
      maxAge = 24 * 60 * 60 * 1000\<rparr>"

text \<open>\<^verbatim>\<open>POST /api/demo/access/:token\<close>, the exchange of a grant's token for a demo cookie.\<close>

definition demo_access :: "runtime \<Rightarrow> nat \<Rightarrow> db \<Rightarrow> request \<Rightarrow> response" where
  "demo_access rt now d req =
     (case select_first (\<lambda>a. sql_eq (a_token a) (req_params req ''token''))
             (accesTemporaires d) of
        Threw \<Rightarrow> error_response 500 ''Erreur serveur''
      | Returned None \<Rightarrow> error_response 404 (''Lien non trouv'' @ e_acute)
      | Returned (Some acces) \<Rightarrow>
          if \<not> a_actif acces then
            error_response 403 (''Ce lien a '' @ e_acute @ ''t'' @ e_acute @ '' r'' @ e_acute
                                @ ''voqu'' @ e_acute)
          else if (case a_dateExpiration acces of
                     None \<Rightarrow> False
                   | Some dateExpiration \<Rightarrow> dateExpiration < now) then
            error_response 403 (''Ce lien a expir'' @ e_acute)
          else
            (let demoToken = jwt_sign rt
                               [(''type'', ''demo''),
                                (''accesId'', a_id acces),
                                (''agenceId'', a_agenceId acces),
                                (''nom'', a_nom acces)]
                               (JWT_SECRET rt) (24 * 60 * 60) now
             in \<lparr>res_status = 200,
                 res_body = JObj [(''message'', JStr (''Acc'' @ e_grave @ ''s autoris'' @ e_acute)),
                                  (''agenceId'', JStr (a_agenceId acces))],
                 res_cookies = [SetCookie ''demo_token'' demoToken (demo_cookie_options rt)]\<rparr>))"

text \<open>
  \<^verbatim>\<open>GET /api/acces-temporaires/valider/:token\<close>. A field whose value is \<^verbatim>\<open>undefined\<close>
  is left out of the JSON body.
\<close>

definition valider :: "nat \<Rightarrow> db \<Rightarrow> request \<Rightarrow> response" where
  "valider now d req =
     (case select_first (\<lambda>a. sql_eq (a_token a) (req_params req ''token''))
             (accesTemporaires d) of
        Threw \<Rightarrow>
          json_response 500 (JObj [(''valid'', JBool False), (''error'', JStr ''Erreur serveur'')])
      | Returned None \<Rightarrow>
          json_response 404
            (JObj [(''valid'', JBool False),
                   (''error'', JStr (''Lien d'acc'' @ e_grave @ ''s invalide''))])
      | Returned (Some acces) \<Rightarrow>
          if \<not> a_actif acces then
            json_response 403
              (JObj [(''valid'', JBool False),
                     (''error'', JStr (''Cet acc'' @ e_grave @ ''s a '' @ e_acute @ ''t'' @ e_acute
                                       @ '' r'' @ e_acute @ ''voqu'' @ e_acute))])
          else if (case a_dateExpiration acces of
                     None \<Rightarrow> False
                   | Some dateExpiration \<Rightarrow> now > dateExpiration) then
            json_response 403
              (JObj [(''valid'', JBool False),
                     (''error'', JStr (''Cet acc'' @ e_grave @ ''s a expir'' @ e_acute))])
          else
            (case select_first (\<lambda>g. sql_eq (ag_id g) (Some (a_agenceId acces))) (agences d) of
               Threw \<Rightarrow>
                 json_response 500
                   (JObj [(''valid'', JBool False), (''error'', JStr ''Erreur serveur'')])
             | Returned agence \<Rightarrow>
                 json_response 200
                   (JObj ([(''valid'', JBool True),
                           (''agenceId'', JStr (a_agenceId acces))]
                          @ (case agence of
                               None \<Rightarrow> []
                             | Some g \<Rightarrow> [(''agenceNom'', JStr (ag_nom g))])
                          @ [(''nom'', JStr (a_nom acces))]))))"

section \<open>The client's cookie jar\<close>

text \<open>
  What a user agent does with the cookie instructions of a response, in their order:
  \<^verbatim>\<open>res.cookie\<close> stores the value under the name, \<^verbatim>\<open>res.clearCookie\<close> removes the
  name. The handlers set and clear their cookies at the path \<open>/\<close> (given, or the default
  of Express), so the name alone identifies a cookie. The jar is what the next request
  carries as \<^verbatim>\<open>req.cookies\<close>.
\<close>

fun apply_cookie :: "cookie_op \<Rightarrow> (string \<rightharpoonup> string) \<Rightarrow> (string \<rightharpoonup> string)" where
  "apply_cookie (SetCookie name v opts) jar = jar(name \<mapsto> v)"
| "apply_cookie (ClearCookie name) jar = jar(name := None)"

definition apply_cookies :: "cookie_op list \<Rightarrow> (string \<rightharpoonup> string) \<Rightarrow> (string \<rightharpoonup> string)" where
  "apply_cookies ops jar = foldl (\<lambda>j c. apply_cookie c j) jar ops"

section \<open>A concrete deployment\<close>

text \<open>
  The closed instances below run the handlers on this deployment: one agency, its
  owner Ana, one administrator, one temporary access grant, and a runtime whose signed
  tokens it verifies. As jsonwebtoken stamps a token in whole seconds, the token of a
  login depends on the second of the instant only: a login of the owner during second 1
  (instants 1000 to 1999) issues \<open>jwt-A\<close>, one during second 2 issues \<open>jwt-B\<close>, and one
  during any other second \<open>n\<close> the string \<open>jwt@\<close> followed by \<open>n\<close> letters \<open>i\<close>.
\<close>

definition sample_rt :: runtime where
  "sample_rt =
     \<lparr>env_JWT_SECRET = Some ''k'',
      env_NODE_ENV = None,
      jwt_sign = (\<lambda>payload secret lifetime now.
                    if map_of payload ''type'' = Some ''demo'' then ''jwt-demo''
                    else if now div 1000 = 1 then ''jwt-A''
                    else if now div 1000 = 2 then ''jwt-B''
                    else ''jwt@'' @ replicate (now div 1000) CHR ''i''),
      jwt_verify = (\<lambda>token secret now.
                      if secret \<noteq> ''k'' then None
                      else if token = ''jwt@'' @ replicate (length token - 4) CHR ''i'' then
                        Some [(''userId'', ''u1''), (''agenceId'', ''ag1''), (''role'', ''owner'')]
                      else
                        map_of [(''jwt-A'', [(''userId'', ''u1''), (''agenceId'', ''ag1''),
                                             (''role'', ''owner'')]),
                                (''jwt-B'', [(''userId'', ''u1''), (''agenceId'', ''ag1''),
                                             (''role'', ''owner'')]),
                                (''jwt-demo'', [(''type'', ''demo''), (''accesId'', ''acc1''),
                                                (''agenceId'', ''ag1''), (''nom'', ''Client'')]),
                                (''jwt-admin'', [(''id'', ''adm1''), (''email'', ''root@x.com''),
                                                 (''type'', ''admin'')])] token),
      sha256_hex = (\<lambda>t. ''sha256:'' @ t),
      bcrypt_compare = (\<lambda>password hash. hash = ''bcrypt:'' @ password),
      zod_email = (\<lambda>e. List.member e CHR ''@''),
      zod_errors = (\<lambda>b. JArr [])\<rparr>"

definition ana :: utilisateur where
  "ana =
     \<lparr>u_id = ''u1'', u_prenom = ''Ana'', u_nom = ''Dupont'', u_email = ''ana@x.com'',
      u_motDePasseHash = ''bcrypt:Abcd1234!'', u_role = ''owner'', u_agenceId = ''ag1'',
      u_emailVerifie = True, u_tokenVerification = None, u_tokenResetPassword = None,
      u_dateCreation = 0, u_derniereConnexion = None, u_actif = True\<rparr>"

definition session_B :: session where
  "session_B =
     \<lparr>s_id = ''s2'', s_utilisateurId = ''u1'', s_tokenHash = ''sha256:jwt-B'',
      s_dateCreation = 2600, s_dateExpiration = 604802600,
      s_adresseIp = None, s_userAgent = None\<rparr>"

definition root_admin :: superAdmin where
  "root_admin =
     \<lparr>sa_id = ''adm1'', sa_email = ''root@x.com'', sa_motDePasse = ''bcrypt:Root1234!'',
      sa_nom = ''Root'', sa_prenom = ''Admin'', sa_actif = True,
      sa_dateCreation = 0, sa_derniereConnexion = None\<rparr>"

definition grant1 :: accesTemporaire where
  "grant1 =
     \<lparr>a_id = ''acc1'', a_agenceId = ''ag1'', a_nom = ''Client'', a_email = None,
      a_token = ''share-1'', a_dateCreation = 0, a_dateExpiration = Some 5000,
      a_actif = True, a_creePar = ''u1''\<rparr>"

definition store0 :: db where
  "store0 =
     \<lparr>agences = Table [\<lparr>ag_id = ''ag1'', ag_nom = ''Ana Agency''\<rparr>],
      utilisateurs = Table [ana],
      sessions = Table [],
      superAdmins = Table [root_admin],
      accesTemporaires = Table [grant1]\<rparr>"

text \<open>A request with no cookie, no parameter and no body.\<close>

definition request0 :: request where
  "request0 =
     \<lparr>req_cookies = Map.empty, req_params = Map.empty, req_body = JNull,
      req_ip = None, req_userAgent = None,
      req_user = None, req_agenceId = None, req_admin = None\<rparr>"

definition login_body :: json where
  "login_body = JObj [(''email'', JStr ''ana@x.com''), (''password'', JStr ''Abcd1234!'')]"

section \<open>Properties of the credential utilities\<close>

lemma randomInt_range: "lo < hi \<Longrightarrow> lo \<le> randomInt rnd k lo hi \<and> randomInt rnd k lo hi < hi"
proof -
  assume lt: "lo < hi"
  then have "rnd k mod (hi - lo) < hi - lo" by simp
  then show ?thesis unfolding randomInt_def using lt by linarith
qed

lemma getRandom_length: "length (getRandom rnd k chars count) = count"
  by (simp add: getRandom_def)

lemma getRandom_members:
  assumes "chars \<noteq> []"
  shows "set (getRandom rnd k chars count) \<subseteq> set chars"
proof -
  have "0 < length chars" using assms by simp
  then have "\<And>i. randomInt rnd (k + i) 0 (length chars) < length chars"
    using randomInt_range [of 0 "length chars"] by simp
  then show ?thesis by (auto simp: getRandom_def)
qed

lemma shuffle_length: "length (shuffle rnd k n password) = length password"
  by (induction n arbitrary: k password) (simp_all add: Let_def)

lemma shuffle_set: "n < length password \<Longrightarrow> set (shuffle rnd k n password) = set password"
proof (induction n arbitrary: k password)
  case 0
  then show ?case by simp
next
  case (Suc n)
  let ?j = "randomInt rnd k 0 (Suc n + 1)"
  let ?p = "password[Suc n := password ! ?j, ?j := password ! Suc n]"
  have j: "?j < length password"
    using randomInt_range [of 0 "Suc n + 1" rnd k] Suc.prems by simp
  have "set ?p = set password"
    using set_swap [OF Suc.prems j] by simp
  moreover have "set (shuffle rnd (Suc k) n ?p) = set ?p"
    using Suc.IH [of ?p "Suc k"] Suc.prems by simp
  ultimately show ?case by (simp add: Let_def)
qed

lemma uppercase_is_AZ: "c \<in> set uppercase \<Longrightarrow> is_AZ c"
  by (auto simp: uppercase_def is_AZ_def)

lemma numbers_is_09: "c \<in> set numbers \<Longrightarrow> is_09 c"
  by (auto simp: numbers_def is_09_def)

lemma special_is_symbol: "c \<in> set special \<Longrightarrow> is_symbol c"
  by (auto simp: special_def is_symbol_def is_AZ_def is_az_def is_09_def)

lemma getRandom_hits:
  assumes "chars \<noteq> []" and "0 < count" and "\<And>c. c \<in> set chars \<Longrightarrow> P c"
  shows "\<exists>c \<in> set (getRandom rnd k chars count). P c"
proof -
  have "length (getRandom rnd k chars count) = count" by (rule getRandom_length)
  with assms(2) have "getRandom rnd k chars count \<noteq> []" by auto
  then obtain c where c: "c \<in> set (getRandom rnd k chars count)"
    by (cases "getRandom rnd k chars count") auto
  with getRandom_members [OF assms(1)] have "c \<in> set chars" by blast
  with assms(3) c show ?thesis by blast
qed

text \<open>
  The generated password has twelve characters, and the shuffle keeps the uppercase
  letter, the digit and the symbol that the first three parts contribute.
\<close>

lemma generateSecurePassword_shape:
  "length (generateSecurePassword rnd) = 12 \<and>
   (\<exists>c \<in> set (generateSecurePassword rnd). is_AZ c) \<and>
   (\<exists>c \<in> set (generateSecurePassword rnd). is_09 c) \<and>
   (\<exists>c \<in> set (generateSecurePassword rnd). is_symbol c)"
proof -
  let ?u = "getRandom rnd 0 uppercase 3" and ?n = "getRandom rnd 3 numbers 3"
  let ?s = "getRandom rnd 6 special 2" and ?l = "getRandom rnd 8 lowercase 4"
  let ?p = "concat [?u, ?n, ?s, ?l]"
  have len: "length ?p = 12" by (simp add: getRandom_length)
  have gen: "generateSecurePassword rnd = shuffle rnd 12 11 ?p"
    unfolding generateSecurePassword_def Let_def using len by simp
  have set_eq: "set (generateSecurePassword rnd) = set ?p"
    unfolding gen using shuffle_set [of 11 ?p rnd 12] len by simp
  have u: "\<exists>c \<in> set ?u. is_AZ c"
    by (rule getRandom_hits) (simp_all add: uppercase_def uppercase_is_AZ [unfolded uppercase_def])
  have n: "\<exists>c \<in> set ?n. is_09 c"
    by (rule getRandom_hits) (simp_all add: numbers_def numbers_is_09 [unfolded numbers_def])
  have s: "\<exists>c \<in> set ?s. is_symbol c"
    by (rule getRandom_hits) (simp_all add: special_def special_is_symbol [unfolded special_def])
  have "length (generateSecurePassword rnd) = 12"
    unfolding gen using len by (simp add: shuffle_length)
  moreover have "\<exists>c \<in> set ?p. is_AZ c" using u by auto
  moreover have "\<exists>c \<in> set ?p. is_09 c" using n by auto
  moreover have "\<exists>c \<in> set ?p. is_symbol c" using s by auto
  ultimately show ?thesis using set_eq by simp
qed

text \<open>
  Claim C8. Every password that \<^verbatim>\<open>generateSecurePassword()\<close> produces passes
  \<^verbatim>\<open>validatePassword\<close>: whatever the random draws and the shuffle, the result has at
  least 8 characters, an uppercase letter, a digit and a character that is neither a
  letter nor a digit, so \<open>isValid\<close> is true.
\<close>

theorem generateSecurePassword_valid:
  "isValid (validatePassword (generateSecurePassword rnd)) \<and>
   8 \<le> length (generateSecurePassword rnd) \<and>
   list_ex is_AZ (generateSecurePassword rnd) \<and>
   list_ex is_09 (generateSecurePassword rnd) \<and>
   list_ex is_symbol (generateSecurePassword rnd)"
  using generateSecurePassword_shape [of rnd]
  by (simp add: validatePassword_def list_ex_iff)

section \<open>Properties of the middleware and of the routes\<close>

lemmas handler_defs =
  authenticate_def authenticate_demo_def authenticate_user_def authenticateOptional_def
  requireRole_def requireAdmin_def connexion_def deconnexion_def connexionSchema_parse_def
  demo_validate_def demo_access_def valider_def
  verifyJWT_def generateJWT_def hashToken_def JWT_SECRET_def JWT_SECRET_lib_def
  JWT_EXPIRATION_def json_response_def error_response_def user_of_def demo_user_def
  auth_cookie_options_def demo_cookie_options_def apply_cookies_def

lemmas sample_defs =
  sample_rt_def ana_def session_B_def root_admin_def grant1_def store0_def request0_def
  login_body_def

text \<open>Look-ups by a column whose values are unique.\<close>

lemma find_by_key:
  "distinct (map f xs) \<Longrightarrow> x \<in> set xs \<Longrightarrow> find (\<lambda>y. f y = f x) xs = Some x"
proof (induction xs)
  case Nil
  then show ?case by simp
next
  case (Cons a xs)
  show ?case
  proof (cases "a = x")
    case True
    then show ?thesis by simp
  next
    case False
    with Cons.prems have "x \<in> set xs" by simp
    with Cons.prems have "f a \<noteq> f x" by auto
    moreover have "find (\<lambda>y. f y = f x) xs = Some x"
      using Cons.IH Cons.prems \<open>x \<in> set xs\<close> by simp
    ultimately show ?thesis by simp
  qed
qed

lemma find_no_key: "k \<notin> f ` set xs \<Longrightarrow> find (\<lambda>y. f y = k) xs = None"
  by (induction xs) auto

text \<open>
  Claim C9. \<^verbatim>\<open>requireRole\<close> answers 401 when no identity is attached to the request;
  when an identity is attached whose role is not among the permitted ones it answers
  403 with the permitted roles and the caller's role in the body; otherwise it passes
  the request on unchanged.
\<close>

theorem requireRole_contract:
  "(req_user req = None \<longrightarrow>
      requireRole roles req = Respond (error_response 401 (''Non authentifi'' @ e_acute))) \<and>
   (\<forall>u. req_user req = Some u \<and> ru_role u \<notin> set roles \<longrightarrow>
      requireRole roles req =
        Respond (json_response 403
          (JObj [(''error'', JStr (''Acc'' @ e_grave @ ''s refus'' @ e_acute @ '' - R''
                                    @ o_circ @ ''le insuffisant'')),
                 (''requiredRoles'', JArr (map JStr roles)),
                 (''yourRole'', JStr (ru_role u))]))) \<and>
   (\<forall>u. req_user req = Some u \<and> ru_role u \<in> set roles \<longrightarrow> requireRole roles req = Next req)"
  by (simp add: requireRole_def)

theorem requireRole_contract_witness:
  "requireRole [''owner''] request0 = Respond (error_response 401 (''Non authentifi'' @ e_acute)) \<and>
   requireRole [''owner''] (request0\<lparr>req_user := Some (user_of (ana\<lparr>u_role := ''member''\<rparr>))\<rparr>) =
     Respond (json_response 403
          (JObj [(''error'', JStr (''Acc'' @ e_grave @ ''s refus'' @ e_acute @ '' - R''
                                    @ o_circ @ ''le insuffisant'')),
                 (''requiredRoles'', JArr [JStr ''owner'']),
                 (''yourRole'', JStr ''member'')])) \<and>
   requireRole [''owner'', ''member''] (request0\<lparr>req_user := Some (user_of ana)\<rparr>) =
     Next (request0\<lparr>req_user := Some (user_of ana)\<rparr>)"
  using requireRole_contract [of request0 "[''owner'']"]
        requireRole_contract [of "request0\<lparr>req_user := Some (user_of (ana\<lparr>u_role := ''member''\<rparr>))\<rparr>"
                                 "[''owner'']"]
        requireRole_contract [of "request0\<lparr>req_user := Some (user_of ana)\<rparr>" "[''owner'', ''member'']"]
  by (simp add: request0_def user_of_def ana_def)

subsection \<open>The demo path of the middleware\<close>

lemma authenticate_demo_Some:
  assumes "authenticate_demo rt now d req = Some req'"
  shows "\<exists>t decoded rows acces.
           req_cookies req ''demo_token'' = Some t \<and> t \<noteq> [] \<and>
           jwt_verify rt t (JWT_SECRET rt) now = Some decoded \<and>
           map_of decoded ''type'' = Some ''demo'' \<and>
           accesTemporaires d = Table rows \<and>
           find (\<lambda>a. sql_eq (a_id a) (map_of decoded ''accesId'')) rows = Some acces \<and>
           a_actif acces \<and>
           (a_dateExpiration acces = None \<or> (\<exists>e. a_dateExpiration acces = Some e \<and> now < e)) \<and>
           req' = req\<lparr>req_user := Some (demo_user acces), req_agenceId := Some (a_agenceId acces)\<rparr>"
proof -
  from assms obtain t where t: "req_cookies req ''demo_token'' = Some t" "t \<noteq> []"
    by (auto simp: authenticate_demo_def split: option.splits if_splits)
  from assms t obtain decoded where dec: "jwt_verify rt t (JWT_SECRET rt) now = Some decoded"
      "map_of decoded ''type'' = Some ''demo''"
    by (auto simp: authenticate_demo_def split: option.splits if_splits)
  from assms t dec obtain rows where rows: "accesTemporaires d = Table rows"
    by (cases "accesTemporaires d") (auto simp: authenticate_demo_def)
  from assms t dec rows obtain acces where
    acces: "find (\<lambda>a. sql_eq (a_id a) (map_of decoded ''accesId'')) rows = Some acces"
    by (auto simp: authenticate_demo_def split: option.splits if_splits)
  from assms t dec rows acces show ?thesis
    by (auto simp: authenticate_demo_def split: option.splits if_splits)
qed

lemma authenticate_demo_valid:
  assumes "req_cookies req ''demo_token'' = Some t" and "t \<noteq> []"
      and "jwt_verify rt t (JWT_SECRET rt) now = Some decoded"
      and "map_of decoded ''type'' = Some ''demo''"
      and "accesTemporaires d = Table rows"
      and "find (\<lambda>a. sql_eq (a_id a) (map_of decoded ''accesId'')) rows = Some acces"
      and "a_actif acces"
      and "a_dateExpiration acces = None \<or> (\<exists>e. a_dateExpiration acces = Some e \<and> now < e)"
  shows "authenticate_demo rt now d req =
           Some (req\<lparr>req_user := Some (demo_user acces), req_agenceId := Some (a_agenceId acces)\<rparr>)"
  using assms by (auto simp: authenticate_demo_def)

text \<open>
  Claim C4. A request carries a \<^verbatim>\<open>demo_token\<close> cookie. When the cookie verifies with the
  type \<open>demo\<close> and the grant it names exists, is active and has no expiration or one
  after the current instant, the middleware attaches the virtual user (identity
  \<open>demo-\<close> followed by the grant's id, role \<open>member\<close>, the grant's agency) and calls
  \<^verbatim>\<open>next()\<close>, whatever the session table holds, even unreachable. In every other
  case the demo block answers nothing: the outcome is the one of the \<^verbatim>\<open>auth_token\<close>
  path.
\<close>

theorem demo_token_path:
  assumes "req_cookies req ''demo_token'' = Some t"
  shows
    "(\<forall>decoded rows acces.
        t \<noteq> [] \<and>
        jwt_verify rt t (JWT_SECRET rt) now = Some decoded \<and>
        map_of decoded ''type'' = Some ''demo'' \<and>
        accesTemporaires d = Table rows \<and>
        find (\<lambda>a. sql_eq (a_id a) (map_of decoded ''accesId'')) rows = Some acces \<and>
        a_actif acces \<and>
        (a_dateExpiration acces = None \<or> (\<exists>e. a_dateExpiration acces = Some e \<and> now < e)) \<longrightarrow>
        (\<forall>ss. authenticate rt now (d\<lparr>sessions := ss\<rparr>) req =
           Next (req\<lparr>req_user :=
                        Some \<lparr>ru_id = ''demo-'' @ a_id acces,
                              ru_email = or_else (a_email acces) ''demo@onlytrack.io'',
                              ru_role = ''member'',
                              ru_agenceId = a_agenceId acces,
                              ru_isDemo = Some True,
                              ru_demoNom = Some (a_nom acces)\<rparr>,
                      req_agenceId := Some (a_agenceId acces)\<rparr>))) \<and>
     (authenticate rt now d req = authenticate_user rt now d req \<or>
      (\<exists>decoded rows acces.
         t \<noteq> [] \<and>
         jwt_verify rt t (JWT_SECRET rt) now = Some decoded \<and>
         map_of decoded ''type'' = Some ''demo'' \<and>
         accesTemporaires d = Table rows \<and>
         find (\<lambda>a. sql_eq (a_id a) (map_of decoded ''accesId'')) rows = Some acces \<and>
         a_actif acces \<and>
         (a_dateExpiration acces = None \<or> (\<exists>e. a_dateExpiration acces = Some e \<and> now < e)) \<and>
         authenticate rt now d req =
           Next (req\<lparr>req_user := Some (demo_user acces),
                      req_agenceId := Some (a_agenceId acces)\<rparr>)))"
proof (intro conjI allI impI)
  fix decoded rows acces ss
  assume h: "t \<noteq> [] \<and>
        jwt_verify rt t (JWT_SECRET rt) now = Some decoded \<and>
        map_of decoded ''type'' = Some ''demo'' \<and>
        accesTemporaires d = Table rows \<and>
        find (\<lambda>a. sql_eq (a_id a) (map_of decoded ''accesId'')) rows = Some acces \<and>
        a_actif acces \<and>
        (a_dateExpiration acces = None \<or> (\<exists>e. a_dateExpiration acces = Some e \<and> now < e))"
  have "authenticate_demo rt now (d\<lparr>sessions := ss\<rparr>) req =
          Some (req\<lparr>req_user := Some (demo_user acces), req_agenceId := Some (a_agenceId acces)\<rparr>)"
    by (rule authenticate_demo_valid [where t = t and decoded = decoded and rows = rows])
       (use assms h in simp_all)
  then show "authenticate rt now (d\<lparr>sessions := ss\<rparr>) req =
           Next (req\<lparr>req_user :=
                        Some \<lparr>ru_id = ''demo-'' @ a_id acces,
                              ru_email = or_else (a_email acces) ''demo@onlytrack.io'',
                              ru_role = ''member'',
                              ru_agenceId = a_agenceId acces,
                              ru_isDemo = Some True,
                              ru_demoNom = Some (a_nom acces)\<rparr>,
                      req_agenceId := Some (a_agenceId acces)\<rparr>)"
    by (simp add: authenticate_def demo_user_def)
next
  show "authenticate rt now d req = authenticate_user rt now d req \<or>
      (\<exists>decoded rows acces.
         t \<noteq> [] \<and>
         jwt_verify rt t (JWT_SECRET rt) now = Some decoded \<and>
         map_of decoded ''type'' = Some ''demo'' \<and>
         accesTemporaires d = Table rows \<and>
         find (\<lambda>a. sql_eq (a_id a) (map_of decoded ''accesId'')) rows = Some acces \<and>
         a_actif acces \<and>
         (a_dateExpiration acces = None \<or> (\<exists>e. a_dateExpiration acces = Some e \<and> now < e)) \<and>
         authenticate rt now d req =
           Next (req\<lparr>req_user := Some (demo_user acces),
                      req_agenceId := Some (a_agenceId acces)\<rparr>))"
  proof (cases "authenticate_demo rt now d req")
    case None
    then show ?thesis by (simp add: authenticate_def)
  next
    case (Some req')
    from authenticate_demo_Some [OF Some] assms Some show ?thesis
      by (auto simp: authenticate_def)
  qed
qed

theorem demo_token_path_witness:
  "authenticate sample_rt 3000 (store0\<lparr>sessions := Unreachable\<rparr>)
     (request0\<lparr>req_cookies := [''demo_token'' \<mapsto> ''jwt-demo'', ''auth_token'' \<mapsto> ''jwt-A'']\<rparr>) =
   Next (request0\<lparr>req_cookies := [''demo_token'' \<mapsto> ''jwt-demo'', ''auth_token'' \<mapsto> ''jwt-A''],
                  req_user := Some \<lparr>ru_id = ''demo-acc1'', ru_email = ''demo@onlytrack.io'',
                                    ru_role = ''member'', ru_agenceId = ''ag1'',
                                    ru_isDemo = Some True, ru_demoNom = Some ''Client''\<rparr>,
                  req_agenceId := Some ''ag1''\<rparr>) \<and>
   authenticate sample_rt 6000 (store0\<lparr>sessions := Table [session_B]\<rparr>)
     (request0\<lparr>req_cookies := [''demo_token'' \<mapsto> ''jwt-demo'', ''auth_token'' \<mapsto> ''jwt-A'']\<rparr>) =
   authenticate_user sample_rt 6000 (store0\<lparr>sessions := Table [session_B]\<rparr>)
     (request0\<lparr>req_cookies := [''demo_token'' \<mapsto> ''jwt-demo'', ''auth_token'' \<mapsto> ''jwt-A'']\<rparr>) \<and>
   authenticate_user sample_rt 6000 (store0\<lparr>sessions := Table [session_B]\<rparr>)
     (request0\<lparr>req_cookies := [''demo_token'' \<mapsto> ''jwt-demo'', ''auth_token'' \<mapsto> ''jwt-A'']\<rparr>) =
   Next (request0\<lparr>req_cookies := [''demo_token'' \<mapsto> ''jwt-demo'', ''auth_token'' \<mapsto> ''jwt-A''],
                  req_user := Some (user_of ana), req_agenceId := Some ''ag1''\<rparr>)"
proof -
  let ?req = "request0\<lparr>req_cookies := [''demo_token'' \<mapsto> ''jwt-demo'', ''auth_token'' \<mapsto> ''jwt-A'']\<rparr>"
  let ?late = "store0\<lparr>sessions := Table [session_B]\<rparr>"
  have cookie: "req_cookies ?req ''demo_token'' = Some ''jwt-demo''"
    by (simp add: request0_def)
  have valid: "''jwt-demo'' \<noteq> [] \<and>
        jwt_verify sample_rt ''jwt-demo'' (JWT_SECRET sample_rt) 3000 =
          Some [(''type'', ''demo''), (''accesId'', ''acc1''), (''agenceId'', ''ag1''),
                (''nom'', ''Client'')] \<and>
        map_of [(''type'', ''demo''), (''accesId'', ''acc1''), (''agenceId'', ''ag1''),
                (''nom'', ''Client'')] ''type'' = Some ''demo'' \<and>
        accesTemporaires store0 = Table [grant1] \<and>
        find (\<lambda>a. sql_eq (a_id a) (map_of [(''type'', ''demo''), (''accesId'', ''acc1''),
                (''agenceId'', ''ag1''), (''nom'', ''Client'')] ''accesId'')) [grant1] = Some grant1 \<and>
        a_actif grant1 \<and>
        (a_dateExpiration grant1 = None \<or> (\<exists>e. a_dateExpiration grant1 = Some e \<and> 3000 < e))"
    by (simp add: sample_defs JWT_SECRET_def)
  have first: "authenticate sample_rt 3000 (store0\<lparr>sessions := Unreachable\<rparr>) ?req =
      Next (?req\<lparr>req_user := Some \<lparr>ru_id = ''demo-'' @ a_id grant1,
                              ru_email = or_else (a_email grant1) ''demo@onlytrack.io'',
                              ru_role = ''member'',
                              ru_agenceId = a_agenceId grant1,
                              ru_isDemo = Some True,
                              ru_demoNom = Some (a_nom grant1)\<rparr>,
                      req_agenceId := Some (a_agenceId grant1)\<rparr>)"
    using demo_token_path [OF cookie, of sample_rt 3000 store0, THEN conjunct1, rule_format,
            OF valid, of Unreachable] .
  have "authenticate sample_rt 6000 ?late ?req = authenticate_user sample_rt 6000 ?late ?req \<or>
        (\<exists>decoded rows acces.
         ''jwt-demo'' \<noteq> [] \<and>
         jwt_verify sample_rt ''jwt-demo'' (JWT_SECRET sample_rt) 6000 = Some decoded \<and>
         map_of decoded ''type'' = Some ''demo'' \<and>
         accesTemporaires ?late = Table rows \<and>
         find (\<lambda>a. sql_eq (a_id a) (map_of decoded ''accesId'')) rows = Some acces \<and>
         a_actif acces \<and>
         (a_dateExpiration acces = None \<or> (\<exists>e. a_dateExpiration acces = Some e \<and> 6000 < e)) \<and>
         authenticate sample_rt 6000 ?late ?req =
           Next (?req\<lparr>req_user := Some (demo_user acces),
                      req_agenceId := Some (a_agenceId acces)\<rparr>))"
    using demo_token_path [OF cookie, of sample_rt 6000 ?late, THEN conjunct2] .
  then have second: "authenticate sample_rt 6000 ?late ?req =
                     authenticate_user sample_rt 6000 ?late ?req"
    by (auto simp: sample_defs JWT_SECRET_def)
  have third: "authenticate_user sample_rt 6000 ?late ?req =
    Next (?req\<lparr>req_user := Some (user_of ana), req_agenceId := Some ''ag1''\<rparr>)"
    by (simp add: handler_defs sample_defs)
  from first second third show ?thesis
    by (simp add: grant1_def)
qed

subsection \<open>The two authentication planes\<close>

text \<open>
  Claim C5. A request without an \<^verbatim>\<open>admin_token\<close> cookie, whatever else it carries, is
  answered 401 by \<^verbatim>\<open>requireAdmin\<close>; a request with neither an \<^verbatim>\<open>auth_token\<close> nor a
  \<^verbatim>\<open>demo_token\<close> cookie, whatever else it carries, is answered 401 by
  \<^verbatim>\<open>authenticate\<close>. So a tenant token alone never passes the administrator guard,
  and an administrator token alone never passes the tenant middleware. The guard also
  answers 401 to a token it can verify whose payload has not the type \<open>admin\<close>, as the
  payload of a tenant token, when the \<^verbatim>\<open>admin_token\<close> cookie carries it.
\<close>

theorem planes_do_not_accept_each_other:
  "(req_cookies req ''admin_token'' = None \<longrightarrow>
      requireAdmin rt now d req = Respond (error_response 401 (''Non authentifi'' @ e_acute))) \<and>
   (\<forall>t decoded. req_cookies req ''admin_token'' = Some t \<and> t \<noteq> [] \<and>
        jwt_verify rt t (JWT_SECRET rt) now = Some decoded \<and>
        map_of decoded ''type'' \<noteq> Some ''admin'' \<longrightarrow>
      requireAdmin rt now d req =
        Respond (error_response 401 (''Acc'' @ e_grave @ ''s non autoris'' @ e_acute))) \<and>
   (req_cookies req ''auth_token'' = None \<and> req_cookies req ''demo_token'' = None \<longrightarrow>
      authenticate rt now d req =
        Respond (error_response 401 (''Non authentifi'' @ e_acute @ '' - Token manquant'')))"
  by (simp add: requireAdmin_def authenticate_def authenticate_demo_def authenticate_user_def)

theorem planes_do_not_accept_each_other_witness:
  "authenticate sample_rt 3000 (store0\<lparr>sessions := Table [session_B]\<rparr>)
     (request0\<lparr>req_cookies := [''auth_token'' \<mapsto> ''jwt-B'']\<rparr>) =
     Next (request0\<lparr>req_cookies := [''auth_token'' \<mapsto> ''jwt-B''],
                    req_user := Some (user_of ana), req_agenceId := Some ''ag1''\<rparr>) \<and>
   requireAdmin sample_rt 3000 (store0\<lparr>sessions := Table [session_B]\<rparr>)
     (request0\<lparr>req_cookies := [''auth_token'' \<mapsto> ''jwt-B'']\<rparr>) =
     Respond (error_response 401 (''Non authentifi'' @ e_acute)) \<and>
   requireAdmin sample_rt 3000 (store0\<lparr>sessions := Table [session_B]\<rparr>)
     (request0\<lparr>req_cookies := [''admin_token'' \<mapsto> ''jwt-B'']\<rparr>) =
     Respond (error_response 401 (''Acc'' @ e_grave @ ''s non autoris'' @ e_acute)) \<and>
   requireAdmin sample_rt 3000 (store0\<lparr>sessions := Table [session_B]\<rparr>)
     (request0\<lparr>req_cookies := [''admin_token'' \<mapsto> ''jwt-admin'']\<rparr>) =
     Next (request0\<lparr>req_cookies := [''admin_token'' \<mapsto> ''jwt-admin''],
                    req_admin := Some root_admin\<rparr>) \<and>
   authenticate sample_rt 3000 (store0\<lparr>sessions := Table [session_B]\<rparr>)
     (request0\<lparr>req_cookies := [''admin_token'' \<mapsto> ''jwt-admin'']\<rparr>) =
     Respond (error_response 401 (''Non authentifi'' @ e_acute @ '' - Token manquant''))"
proof -
  let ?d = "store0\<lparr>sessions := Table [session_B]\<rparr>"
  let ?tenant = "request0\<lparr>req_cookies := [''auth_token'' \<mapsto> ''jwt-B'']\<rparr>"
  let ?swapped = "request0\<lparr>req_cookies := [''admin_token'' \<mapsto> ''jwt-B'']\<rparr>"
  let ?admin = "request0\<lparr>req_cookies := [''admin_token'' \<mapsto> ''jwt-admin'']\<rparr>"
  have "req_cookies ?tenant ''admin_token'' = None" by (simp add: request0_def)
  with planes_do_not_accept_each_other [of ?tenant sample_rt 3000 ?d]
  have a: "requireAdmin sample_rt 3000 ?d ?tenant =
           Respond (error_response 401 (''Non authentifi'' @ e_acute))" by blast
  have "req_cookies ?admin ''auth_token'' = None \<and> req_cookies ?admin ''demo_token'' = None"
    by (simp add: request0_def)
  with planes_do_not_accept_each_other [of ?admin sample_rt 3000 ?d]
  have b: "authenticate sample_rt 3000 ?d ?admin =
           Respond (error_response 401 (''Non authentifi'' @ e_acute @ '' - Token manquant''))"
    by blast
  have "req_cookies ?swapped ''admin_token'' = Some ''jwt-B'' \<and> ''jwt-B'' \<noteq> [] \<and>
        jwt_verify sample_rt ''jwt-B'' (JWT_SECRET sample_rt) 3000 =
          Some [(''userId'', ''u1''), (''agenceId'', ''ag1''), (''role'', ''owner'')] \<and>
        map_of [(''userId'', ''u1''), (''agenceId'', ''ag1''), (''role'', ''owner'')] ''type''
          \<noteq> Some ''admin''"
    by (simp add: request0_def sample_rt_def JWT_SECRET_def)
  with planes_do_not_accept_each_other [of ?swapped sample_rt 3000 ?d]
  have e: "requireAdmin sample_rt 3000 ?d ?swapped =
           Respond (error_response 401 (''Acc'' @ e_grave @ ''s non autoris'' @ e_acute))"
    by blast
  have c: "authenticate sample_rt 3000 ?d ?tenant =
     Next (?tenant\<lparr>req_user := Some (user_of ana), req_agenceId := Some ''ag1''\<rparr>)"
    by (simp add: handler_defs sample_defs)
  have d: "requireAdmin sample_rt 3000 ?d ?admin = Next (?admin\<lparr>req_admin := Some root_admin\<rparr>)"
    by (simp add: handler_defs sample_defs)
  from a b c d e show ?thesis by simp
qed

subsection \<open>Sessions and revocation\<close>

text \<open>
  What the session check of the middleware is: a request that the \<^verbatim>\<open>auth_token\<close> path
  lets through has an unexpired session row of the user the payload names.
\<close>

lemma authenticate_user_session:
  assumes "authenticate_user rt now d req = Next req'"
  shows "\<exists>token payload ss s.
           req_cookies req ''auth_token'' = Some token \<and>
           verifyJWT rt now token = Some payload \<and>
           sessions d = Table ss \<and> s \<in> set ss \<and>
           sql_eq (s_utilisateurId s) (map_of payload ''userId'') \<and>
           now < s_dateExpiration s"
proof -
  from assms obtain token where t: "req_cookies req ''auth_token'' = Some token" "token \<noteq> []"
    by (auto simp: authenticate_user_def split: option.splits if_splits)
  from assms t obtain payload where p: "verifyJWT rt now token = Some payload"
    by (auto simp: authenticate_user_def split: option.splits)
  from assms t p obtain ss where ss: "sessions d = Table ss"
    by (cases "sessions d") (auto simp: authenticate_user_def)
  from assms t p ss obtain s where
    "find (\<lambda>s. sql_eq (s_utilisateurId s) (map_of payload ''userId'') \<and>
               s_dateExpiration s > now) ss = Some s"
    by (auto simp: authenticate_user_def split: option.splits)
  then have "s \<in> set ss \<and> sql_eq (s_utilisateurId s) (map_of payload ''userId'') \<and>
             now < s_dateExpiration s"
    by (auto simp: find_Some_iff)
  with t p ss show ?thesis by blast
qed

text \<open>The digests the session rows hold have no part in the outcome.\<close>

lemma find_rehash:
  "(find (\<lambda>s. sql_eq (s_utilisateurId s) uid \<and> s_dateExpiration s > now)
      (map (\<lambda>s. s\<lparr>s_tokenHash := h s\<rparr>) ss) = None) =
   (find (\<lambda>s. sql_eq (s_utilisateurId s) uid \<and> s_dateExpiration s > now) ss = None)"
  by (auto simp: find_None_iff)

lemma authenticate_user_ignores_digests:
  assumes "sessions d = Table ss"
  shows "authenticate_user rt now (d\<lparr>sessions := Table (map (\<lambda>s. s\<lparr>s_tokenHash := h s\<rparr>) ss)\<rparr>) req =
         authenticate_user rt now d req"
proof -
  let ?p = "\<lambda>uid (s::session). sql_eq (s_utilisateurId s) uid \<and> s_dateExpiration s > now"
  have same: "\<And>uid. (find (?p uid) (map (\<lambda>s. s\<lparr>s_tokenHash := h s\<rparr>) ss) = None) =
                     (find (?p uid) ss = None)"
    by (rule find_rehash)
  show ?thesis
  proof (cases "req_cookies req ''auth_token''")
    case None
    then show ?thesis by (simp add: authenticate_user_def)
  next
    case (Some token)
    show ?thesis
    proof (cases "verifyJWT rt now token")
      case None
      with Some show ?thesis by (simp add: authenticate_user_def)
    next
      case (Some payload)
      let ?uid = "map_of payload ''userId''"
      show ?thesis
      proof (cases "find (?p ?uid) ss")
        case None
        with same [of ?uid] have "find (?p ?uid) (map (\<lambda>s. s\<lparr>s_tokenHash := h s\<rparr>) ss) = None"
          by simp
        with None Some \<open>req_cookies req ''auth_token'' = Some token\<close> assms show ?thesis
          by (simp add: authenticate_user_def)
      next
        case (Some s)
        with same [of ?uid] obtain s' where
          "find (?p ?uid) (map (\<lambda>s. s\<lparr>s_tokenHash := h s\<rparr>) ss) = Some s'"
          by (cases "find (?p ?uid) (map (\<lambda>s. s\<lparr>s_tokenHash := h s\<rparr>) ss)") auto
        with Some \<open>verifyJWT rt now token = Some payload\<close>
             \<open>req_cookies req ''auth_token'' = Some token\<close> assms show ?thesis
          by (simp add: authenticate_user_def)
      qed
    qed
  qed
qed

text \<open>
  Claim C1. The claim: the middleware accepts an \<^verbatim>\<open>auth_token\<close> only if a session row
  holds the digest of that token and is unexpired. The code selects the session by the
  user id of the payload: here the only session row holds the digest of \<open>jwt-B\<close>, the
  request presents \<open>jwt-A\<close>, and the middleware attaches Ana's identity.
\<close>

theorem authenticate_accepts_other_digest:
  "\<not> list_ex (\<lambda>s. s_tokenHash s = hashToken sample_rt ''jwt-A'') [session_B] \<and>
   authenticate sample_rt 3000 (store0\<lparr>sessions := Table [session_B]\<rparr>)
     (request0\<lparr>req_cookies := [''auth_token'' \<mapsto> ''jwt-A'']\<rparr>) =
   Next (request0\<lparr>req_cookies := [''auth_token'' \<mapsto> ''jwt-A''],
                  req_user := Some (user_of ana), req_agenceId := Some ''ag1''\<rparr>)"
  by (simp add: handler_defs sample_defs)

text \<open>
  Two logins during the same second issue the same token and two rows with the same
  digest; a logout with that token deletes both rows, and the token is then refused.
\<close>

lemma logout_after_logins_in_one_second:
  "(let login = request0\<lparr>req_body := login_body\<rparr>;
        with_A = request0\<lparr>req_cookies := [''auth_token'' \<mapsto> ''jwt-A'']\<rparr>;
        (r1, d1) = connexion sample_rt 1000 ''s1'' store0 login;
        (r2, d2) = connexion sample_rt 1600 ''s2'' d1 login;
        (r3, d3) = deconnexion sample_rt 2000 d2 with_A
    in res_cookies r2 = [ClearCookie ''demo_token'',
                         SetCookie ''auth_token'' ''jwt-A'' (auth_cookie_options sample_rt)] \<and>
       res_status r3 = 200 \<and>
       sessions d3 = Table [] \<and>
       authenticate sample_rt 3000 d3 with_A =
         Respond (error_response 401 (''Session expir'' @ e_acute @ ''e'')))"
  by (simp add: handler_defs sample_defs Let_def)

text \<open>
  Claim C2. The claim: once logout has deleted the session row of a token, the
  middleware rejects that token. Here Ana logs in twice, in two different seconds
  (instants 1000 and 2600, tokens \<open>jwt-A\<close> and \<open>jwt-B\<close>), and logs out with \<open>jwt-A\<close> at
  3000, which deletes the row of \<open>jwt-A\<close> and leaves the row of \<open>jwt-B\<close>; a request
  presenting \<open>jwt-A\<close> at 4000 is still given Ana's identity.
\<close>

theorem logout_does_not_revoke:
  "(let login = request0\<lparr>req_body := login_body\<rparr>;
        with_A = request0\<lparr>req_cookies := [''auth_token'' \<mapsto> ''jwt-A'']\<rparr>;
        (r1, d1) = connexion sample_rt 1000 ''s1'' store0 login;
        (r2, d2) = connexion sample_rt 2600 ''s2'' d1 login;
        (r3, d3) = deconnexion sample_rt 3000 d2 with_A
    in res_cookies r1 = [ClearCookie ''demo_token'',
                         SetCookie ''auth_token'' ''jwt-A'' (auth_cookie_options sample_rt)] \<and>
       res_cookies r2 = [ClearCookie ''demo_token'',
                         SetCookie ''auth_token'' ''jwt-B'' (auth_cookie_options sample_rt)] \<and>
       res_status r3 = 200 \<and>
       sessions d3 = Table [session_B] \<and>
       \<not> list_ex (\<lambda>s. s_tokenHash s = hashToken sample_rt ''jwt-A'') [session_B] \<and>
       authenticate sample_rt 4000 d3 with_A =
         Next (with_A\<lparr>req_user := Some (user_of ana), req_agenceId := Some ''ag1''\<rparr>))"
  by (simp add: handler_defs sample_defs Let_def)

text \<open>
  \<^verbatim>\<open>authenticateOptional\<close> always calls \<^verbatim>\<open>next()\<close>, and the session table has no part
  in what it attaches.
\<close>

lemma authenticateOptional_next:
  "\<exists>req'. authenticateOptional rt now d req = Next req'"
  by (simp add: authenticateOptional_def split: option.splits attempt.splits)

lemma authenticateOptional_ignores_sessions:
  "authenticateOptional rt now (d\<lparr>sessions := x\<rparr>) req = authenticateOptional rt now d req"
  by (simp add: authenticateOptional_def split: option.splits)

text \<open>
  Claim C3. The claim: \<^verbatim>\<open>authenticateOptional\<close> makes the checks of the strict
  middleware, the unexpired session row among them, and attaches no identity when one
  fails. Here the session table is empty: the strict middleware answers 401, session
  expired, and \<^verbatim>\<open>authenticateOptional\<close> attaches Ana's identity to the same
  request.
\<close>

theorem authenticateOptional_without_session:
  "authenticate sample_rt 3000 store0 (request0\<lparr>req_cookies := [''auth_token'' \<mapsto> ''jwt-A'']\<rparr>) =
     Respond (error_response 401 (''Session expir'' @ e_acute @ ''e'')) \<and>
   authenticateOptional sample_rt 3000 store0
     (request0\<lparr>req_cookies := [''auth_token'' \<mapsto> ''jwt-A'']\<rparr>) =
   Next (request0\<lparr>req_cookies := [''auth_token'' \<mapsto> ''jwt-A''],
                  req_user := Some (user_of ana), req_agenceId := Some ''ag1''\<rparr>)"
  by (simp add: handler_defs sample_defs)

subsection \<open>Login\<close>

text \<open>
  Claim C6. A login request whose body carries an email that zod takes for an address
  and a password, on a store whose user and session tables answer and whose emails are
  unique (a constraint of the schema). If a user has the email, the password matches
  its hash, and the account is verified and active, the response is 200, clears \<^verbatim>\<open>demo_token\<close>, sets \<^verbatim>\<open>auth_token\<close> to the issued
  token, and the session table gains one row, for that user, whose digest is
  \<^verbatim>\<open>hashToken\<close> of the token. If no user has the email, or the password does not match,
  the store is unchanged and the response is the same 401 in both cases.
\<close>

theorem connexion_contract:
  assumes body: "req_body req = JObj props \<and>
                 map_of props ''email'' = Some (JStr email) \<and>
                 map_of props ''password'' = Some (JStr password) \<and>
                 zod_email rt email"
      and us: "utilisateurs d = Table us"
      and ss: "sessions d = Table ss"
      and unique: "distinct (map u_email us)"
  shows
    "(\<forall>user. user \<in> set us \<and> u_email user = email \<and>
             bcrypt_compare rt password (u_motDePasseHash user) \<and>
             u_emailVerifie user \<and> u_actif user \<longrightarrow>
        (\<exists>token row.
           token = generateJWT rt now [(''userId'', u_id user),
                                       (''agenceId'', u_agenceId user),
                                       (''role'', u_role user)] \<and>
           res_status (fst (connexion rt now sessionId d req)) = 200 \<and>
           res_cookies (fst (connexion rt now sessionId d req)) =
             [ClearCookie ''demo_token'',
              SetCookie ''auth_token'' token (auth_cookie_options rt)] \<and>
           sessions (snd (connexion rt now sessionId d req)) = Table (ss @ [row]) \<and>
           s_tokenHash row = hashToken rt token \<and>
           s_utilisateurId row = u_id user)) \<and>
     (email \<notin> u_email ` set us \<longrightarrow>
        connexion rt now sessionId d req =
          (error_response 401 ''Email ou mot de passe incorrect'', d)) \<and>
     (\<forall>user. user \<in> set us \<and> u_email user = email \<and>
             \<not> bcrypt_compare rt password (u_motDePasseHash user) \<longrightarrow>
        connexion rt now sessionId d req =
          (error_response 401 ''Email ou mot de passe incorrect'', d))"
proof -
  have parsed: "connexionSchema_parse rt (req_body req) = Some (email, password)"
    using body by (simp add: connexionSchema_parse_def)
  show ?thesis
  proof (intro conjI allI impI)
  fix user
  assume h: "user \<in> set us \<and> u_email user = email \<and>
             bcrypt_compare rt password (u_motDePasseHash user) \<and>
             u_emailVerifie user \<and> u_actif user"
  then have f: "find (\<lambda>u. u_email u = email) us = Some user"
    using find_by_key [of u_email us user] unique by auto
  show "\<exists>token row.
           token = generateJWT rt now [(''userId'', u_id user),
                                       (''agenceId'', u_agenceId user),
                                       (''role'', u_role user)] \<and>
           res_status (fst (connexion rt now sessionId d req)) = 200 \<and>
           res_cookies (fst (connexion rt now sessionId d req)) =
             [ClearCookie ''demo_token'',
              SetCookie ''auth_token'' token (auth_cookie_options rt)] \<and>
           sessions (snd (connexion rt now sessionId d req)) = Table (ss @ [row]) \<and>
           s_tokenHash row = hashToken rt token \<and>
           s_utilisateurId row = u_id user"
    using parsed us ss f h by (simp add: connexion_def Let_def)
next
  assume "email \<notin> u_email ` set us"
  then have "find (\<lambda>u. u_email u = email) us = None" by (rule find_no_key)
  then show "connexion rt now sessionId d req =
          (error_response 401 ''Email ou mot de passe incorrect'', d)"
    using parsed us ss by (simp add: connexion_def)
next
  fix user
  assume h: "user \<in> set us \<and> u_email user = email \<and>
             \<not> bcrypt_compare rt password (u_motDePasseHash user)"
  then have f: "find (\<lambda>u. u_email u = email) us = Some user"
    using find_by_key [of u_email us user] unique by auto
  show "connexion rt now sessionId d req =
          (error_response 401 ''Email ou mot de passe incorrect'', d)"
    using parsed us ss f h by (simp add: connexion_def)
qed
qed

theorem connexion_contract_witness:
  "res_status (fst (connexion sample_rt 1000 ''s1'' store0 (request0\<lparr>req_body := login_body\<rparr>))) = 200 \<and>
   res_cookies (fst (connexion sample_rt 1000 ''s1'' store0 (request0\<lparr>req_body := login_body\<rparr>))) =
     [ClearCookie ''demo_token'',
      SetCookie ''auth_token'' ''jwt-A'' (auth_cookie_options sample_rt)] \<and>
   (\<exists>row. sessions (snd (connexion sample_rt 1000 ''s1'' store0
                            (request0\<lparr>req_body := login_body\<rparr>))) = Table ([] @ [row]) \<and>
          s_tokenHash row = hashToken sample_rt ''jwt-A'' \<and> s_utilisateurId row = ''u1'') \<and>
   connexion sample_rt 1000 ''s1'' store0
     (request0\<lparr>req_body := JObj [(''email'', JStr ''bob@x.com''),
                                  (''password'', JStr ''Abcd1234!'')]\<rparr>) =
     (error_response 401 ''Email ou mot de passe incorrect'', store0) \<and>
   connexion sample_rt 1000 ''s1'' store0
     (request0\<lparr>req_body := JObj [(''email'', JStr ''ana@x.com''),
                                  (''password'', JStr ''Wrong1234!'')]\<rparr>) =
     (error_response 401 ''Email ou mot de passe incorrect'', store0)"
proof -
  let ?good = "request0\<lparr>req_body := login_body\<rparr>"
  let ?unknown = "request0\<lparr>req_body := JObj [(''email'', JStr ''bob@x.com''),
                                  (''password'', JStr ''Abcd1234!'')]\<rparr>"
  let ?wrong = "request0\<lparr>req_body := JObj [(''email'', JStr ''ana@x.com''),
                                  (''password'', JStr ''Wrong1234!'')]\<rparr>"
  have tables: "utilisateurs store0 = Table [ana]" "sessions store0 = Table []"
    "distinct (map u_email [ana])"
    by (simp_all add: store0_def)
  have p1: "req_body ?good = JObj [(''email'', JStr ''ana@x.com''),
                                   (''password'', JStr ''Abcd1234!'')] \<and>
            map_of [(''email'', JStr ''ana@x.com''), (''password'', JStr ''Abcd1234!'')]
              ''email'' = Some (JStr ''ana@x.com'') \<and>
            map_of [(''email'', JStr ''ana@x.com''), (''password'', JStr ''Abcd1234!'')]
              ''password'' = Some (JStr ''Abcd1234!'') \<and>
            zod_email sample_rt ''ana@x.com''"
    by (simp add: sample_defs)
  have p2: "req_body ?unknown = JObj [(''email'', JStr ''bob@x.com''),
                                      (''password'', JStr ''Abcd1234!'')] \<and>
            map_of [(''email'', JStr ''bob@x.com''), (''password'', JStr ''Abcd1234!'')]
              ''email'' = Some (JStr ''bob@x.com'') \<and>
            map_of [(''email'', JStr ''bob@x.com''), (''password'', JStr ''Abcd1234!'')]
              ''password'' = Some (JStr ''Abcd1234!'') \<and>
            zod_email sample_rt ''bob@x.com''"
    by (simp add: sample_defs)
  have p3: "req_body ?wrong = JObj [(''email'', JStr ''ana@x.com''),
                                    (''password'', JStr ''Wrong1234!'')] \<and>
            map_of [(''email'', JStr ''ana@x.com''), (''password'', JStr ''Wrong1234!'')]
              ''email'' = Some (JStr ''ana@x.com'') \<and>
            map_of [(''email'', JStr ''ana@x.com''), (''password'', JStr ''Wrong1234!'')]
              ''password'' = Some (JStr ''Wrong1234!'') \<and>
            zod_email sample_rt ''ana@x.com''"
    by (simp add: sample_defs)
  have valid: "ana \<in> set [ana] \<and> u_email ana = ''ana@x.com'' \<and>
               bcrypt_compare sample_rt ''Abcd1234!'' (u_motDePasseHash ana) \<and>
               u_emailVerifie ana \<and> u_actif ana"
    by (simp add: sample_defs)
  have token: "generateJWT sample_rt 1000 [(''userId'', u_id ana), (''agenceId'', u_agenceId ana),
                                            (''role'', u_role ana)] = ''jwt-A''"
    by (simp add: generateJWT_def sample_defs)
  have a: "\<exists>token row.
           token = generateJWT sample_rt 1000 [(''userId'', u_id ana),
                                       (''agenceId'', u_agenceId ana),
                                       (''role'', u_role ana)] \<and>
           res_status (fst (connexion sample_rt 1000 ''s1'' store0 ?good)) = 200 \<and>
           res_cookies (fst (connexion sample_rt 1000 ''s1'' store0 ?good)) =
             [ClearCookie ''demo_token'',
              SetCookie ''auth_token'' token (auth_cookie_options sample_rt)] \<and>
           sessions (snd (connexion sample_rt 1000 ''s1'' store0 ?good)) = Table ([] @ [row]) \<and>
           s_tokenHash row = hashToken sample_rt token \<and>
           s_utilisateurId row = u_id ana"
    using connexion_contract [OF p1 tables, of 1000 "''s1''", THEN conjunct1, rule_format, OF valid] .
  have unknown: "''bob@x.com'' \<notin> u_email ` set [ana]" by (simp add: ana_def)
  have b: "connexion sample_rt 1000 ''s1'' store0 ?unknown =
          (error_response 401 ''Email ou mot de passe incorrect'', store0)"
    using connexion_contract [OF p2 tables, of 1000 "''s1''", THEN conjunct2, THEN conjunct1,
            rule_format, OF unknown] .
  have wrong: "ana \<in> set [ana] \<and> u_email ana = ''ana@x.com'' \<and>
             \<not> bcrypt_compare sample_rt ''Wrong1234!'' (u_motDePasseHash ana)"
    by (simp add: sample_defs)
  have c: "connexion sample_rt 1000 ''s1'' store0 ?wrong =
          (error_response 401 ''Email ou mot de passe incorrect'', store0)"
    using connexion_contract [OF p3 tables, of 1000 "''s1''", THEN conjunct2, THEN conjunct2,
            rule_format, OF wrong] .
  from a token b c show ?thesis by (simp add: ana_def)
qed

lemma authenticate_without_demo_cookie:
  "req_cookies req ''demo_token'' = None \<Longrightarrow>
   authenticate rt now d req = authenticate_user rt now d req"
  by (simp add: authenticate_def authenticate_demo_def)

lemma connexion_success:
  assumes ok: "res_status (fst (connexion rt now sessionId d req)) = 200"
  shows "\<exists>token. res_cookies (fst (connexion rt now sessionId d req)) =
           [ClearCookie ''demo_token'', SetCookie ''auth_token'' token (auth_cookie_options rt)]"
proof (cases "connexionSchema_parse rt (req_body req)")
  case None
  with ok show ?thesis by (simp add: connexion_def json_response_def)
next
  case (Some creds)
  obtain email password where creds: "creds = (email, password)" by (cases creds)
  note parsed = Some [unfolded creds]
  show ?thesis
  proof (cases "select_first (\<lambda>u. sql_eq (u_email u) (Some email)) (utilisateurs d)")
    case Threw
    with ok parsed show ?thesis
      by (simp add: connexion_def error_response_def json_response_def)
  next
    case (Returned found)
    show ?thesis
    proof (cases found)
      case None
      with ok parsed Returned show ?thesis
        by (simp add: connexion_def error_response_def json_response_def)
    next
      case (Some user)
      note look = Returned [unfolded Some]
      have checks: "bcrypt_compare rt password (u_motDePasseHash user) \<and>
                    u_emailVerifie user \<and> u_actif user"
        using ok parsed look
        by (auto simp: connexion_def error_response_def json_response_def split: if_splits)
      show ?thesis
      proof (cases "sessions d")
        case Unreachable
        with ok parsed look checks show ?thesis
          by (simp add: connexion_def error_response_def json_response_def Let_def)
      next
        case (Table ss)
        note ss = Table
        show ?thesis
        proof (cases "utilisateurs d")
          case Unreachable
          with look show ?thesis by simp
        next
          case (Table us)
          with ok parsed look checks ss show ?thesis
            by (simp add: connexion_def Let_def)
        qed
      qed
    qed
  qed
qed

text \<open>
  Claim C10. A login answered with 200 clears the \<^verbatim>\<open>demo_token\<close> cookie and sets the
  \<^verbatim>\<open>auth_token\<close> cookie. Whatever the client's jar held, after the response it holds no
  \<^verbatim>\<open>demo_token\<close> and holds the issued \<^verbatim>\<open>auth_token\<close>, so on every later request made
  with that jar the middleware, which looks at \<^verbatim>\<open>demo_token\<close> first, decides on the
  \<^verbatim>\<open>auth_token\<close> alone.
\<close>

theorem login_clears_demo_cookie:
  assumes "res_status (fst (connexion rt now sessionId d req)) = 200"
  shows "\<exists>token.
           res_cookies (fst (connexion rt now sessionId d req)) =
             [ClearCookie ''demo_token'',
              SetCookie ''auth_token'' token (auth_cookie_options rt)] \<and>
           (\<forall>jar. apply_cookies (res_cookies (fst (connexion rt now sessionId d req))) jar
                     ''demo_token'' = None \<and>
                  apply_cookies (res_cookies (fst (connexion rt now sessionId d req))) jar
                     ''auth_token'' = Some token) \<and>
           (\<forall>jar now' d' req'.
              req_cookies req' =
                apply_cookies (res_cookies (fst (connexion rt now sessionId d req))) jar \<longrightarrow>
              authenticate rt now' d' req' = authenticate_user rt now' d' req')"
proof -
  from connexion_success [OF assms] obtain token where
    c: "res_cookies (fst (connexion rt now sessionId d req)) =
           [ClearCookie ''demo_token'', SetCookie ''auth_token'' token (auth_cookie_options rt)]"
    by blast
  have jar: "\<And>jar. apply_cookies (res_cookies (fst (connexion rt now sessionId d req))) jar
                     ''demo_token'' = None \<and>
                  apply_cookies (res_cookies (fst (connexion rt now sessionId d req))) jar
                     ''auth_token'' = Some token"
    by (simp add: c apply_cookies_def)
  have "\<And>jar now' d' req'.
              req_cookies req' =
                apply_cookies (res_cookies (fst (connexion rt now sessionId d req))) jar \<Longrightarrow>
              authenticate rt now' d' req' = authenticate_user rt now' d' req'"
    using jar by (simp add: authenticate_without_demo_cookie)
  with c jar show ?thesis by blast
qed

theorem login_clears_demo_cookie_witness:
  "res_status (fst (connexion sample_rt 1000 ''s1'' store0 (request0\<lparr>req_body := login_body\<rparr>))) = 200 \<and>
   apply_cookies (res_cookies (fst (connexion sample_rt 1000 ''s1'' store0
                                      (request0\<lparr>req_body := login_body\<rparr>))))
     [''demo_token'' \<mapsto> ''jwt-demo''] ''demo_token'' = None \<and>
   apply_cookies (res_cookies (fst (connexion sample_rt 1000 ''s1'' store0
                                      (request0\<lparr>req_body := login_body\<rparr>))))
     [''demo_token'' \<mapsto> ''jwt-demo''] ''auth_token'' = Some ''jwt-A'' \<and>
   authenticate sample_rt 2000
     (snd (connexion sample_rt 1000 ''s1'' store0 (request0\<lparr>req_body := login_body\<rparr>)))
     (request0\<lparr>req_cookies :=
        apply_cookies (res_cookies (fst (connexion sample_rt 1000 ''s1'' store0
                                           (request0\<lparr>req_body := login_body\<rparr>))))
          [''demo_token'' \<mapsto> ''jwt-demo'']\<rparr>) =
   Next (request0\<lparr>req_cookies :=
           apply_cookies (res_cookies (fst (connexion sample_rt 1000 ''s1'' store0
                                              (request0\<lparr>req_body := login_body\<rparr>))))
             [''demo_token'' \<mapsto> ''jwt-demo''],
         req_user := Some (user_of ana), req_agenceId := Some ''ag1''\<rparr>) \<and>
   authenticate sample_rt 2000
     (snd (connexion sample_rt 1000 ''s1'' store0 (request0\<lparr>req_body := login_body\<rparr>)))
     (request0\<lparr>req_cookies := [''demo_token'' \<mapsto> ''jwt-demo'', ''auth_token'' \<mapsto> ''jwt-A'']\<rparr>) =
   Next (request0\<lparr>req_cookies := [''demo_token'' \<mapsto> ''jwt-demo'', ''auth_token'' \<mapsto> ''jwt-A''],
                  req_user := Some (demo_user grant1), req_agenceId := Some ''ag1''\<rparr>)"
proof -
  let ?login = "connexion sample_rt 1000 ''s1'' store0 (request0\<lparr>req_body := login_body\<rparr>)"
  let ?jar = "apply_cookies (res_cookies (fst ?login)) [''demo_token'' \<mapsto> ''jwt-demo'']"
  have run: "?login =
    (\<lparr>res_status = 200,
      res_body = JObj [(''message'', JStr (''Connexion r'' @ e_acute @ ''ussie'')),
                       (''user'', JObj [(''id'', JStr ''u1''), (''prenom'', JStr ''Ana''),
                                        (''nom'', JStr ''Dupont''), (''email'', JStr ''ana@x.com''),
                                        (''role'', JStr ''owner''), (''agenceId'', JStr ''ag1'')])],
      res_cookies = [ClearCookie ''demo_token'',
                     SetCookie ''auth_token'' ''jwt-A'' (auth_cookie_options sample_rt)]\<rparr>,
     store0\<lparr>sessions := Table [\<lparr>s_id = ''s1'', s_utilisateurId = ''u1'',
                                   s_tokenHash = ''sha256:jwt-A'', s_dateCreation = 1000,
                                   s_dateExpiration = 604801000, s_adresseIp = None,
                                   s_userAgent = None\<rparr>],
             utilisateurs := Table [ana\<lparr>u_derniereConnexion := Some 1000\<rparr>]\<rparr>)"
    by (simp add: connexion_def connexionSchema_parse_def generateJWT_def hashToken_def
          JWT_SECRET_lib_def JWT_EXPIRATION_def sample_defs Let_def)
  have ok: "res_status (fst ?login) = 200" by (simp add: run)
  from login_clears_demo_cookie [OF ok] obtain token where
    t: "res_cookies (fst ?login) =
          [ClearCookie ''demo_token'', SetCookie ''auth_token'' token (auth_cookie_options sample_rt)]"
       "\<And>jar. apply_cookies (res_cookies (fst ?login)) jar ''demo_token'' = None"
       "\<And>jar. apply_cookies (res_cookies (fst ?login)) jar ''auth_token'' = Some token"
       "\<And>jar now' d' req'. req_cookies req' = apply_cookies (res_cookies (fst ?login)) jar \<Longrightarrow>
          authenticate sample_rt now' d' req' = authenticate_user sample_rt now' d' req'"
    by blast
  from t(1) have tok: "token = ''jwt-A''" by (simp add: run)
  have later: "authenticate sample_rt 2000 (snd ?login) (request0\<lparr>req_cookies := ?jar\<rparr>) =
               authenticate_user sample_rt 2000 (snd ?login) (request0\<lparr>req_cookies := ?jar\<rparr>)"
    by (rule t(4) [of _ "[''demo_token'' \<mapsto> ''jwt-demo'']"]) simp
  have d1: "snd ?login =
     store0\<lparr>sessions := Table [\<lparr>s_id = ''s1'', s_utilisateurId = ''u1'',
                                   s_tokenHash = ''sha256:jwt-A'', s_dateCreation = 1000,
                                   s_dateExpiration = 604801000, s_adresseIp = None,
                                   s_userAgent = None\<rparr>],
             utilisateurs := Table [ana\<lparr>u_derniereConnexion := Some 1000\<rparr>]\<rparr>"
    by (simp add: run)
  have any_jar: "\<And>c. c ''auth_token'' = Some ''jwt-A'' \<Longrightarrow>
     authenticate_user sample_rt 2000
       (store0\<lparr>sessions := Table [\<lparr>s_id = ''s1'', s_utilisateurId = ''u1'',
                                   s_tokenHash = ''sha256:jwt-A'', s_dateCreation = 1000,
                                   s_dateExpiration = 604801000, s_adresseIp = None,
                                   s_userAgent = None\<rparr>],
             utilisateurs := Table [ana\<lparr>u_derniereConnexion := Some 1000\<rparr>]\<rparr>)
       (request0\<lparr>req_cookies := c\<rparr>) =
     Next (request0\<lparr>req_cookies := c, req_user := Some (user_of ana),
                    req_agenceId := Some ''ag1''\<rparr>)"
    by (simp add: authenticate_user_def verifyJWT_def JWT_SECRET_lib_def user_of_def
          sample_defs)
  have real: "authenticate_user sample_rt 2000 (snd ?login) (request0\<lparr>req_cookies := ?jar\<rparr>) =
     Next (request0\<lparr>req_cookies := ?jar, req_user := Some (user_of ana),
                    req_agenceId := Some ''ag1''\<rparr>)"
    unfolding d1 using t(3) [of "[''demo_token'' \<mapsto> ''jwt-demo'']"] tok
    by (intro any_jar) simp
  have shadow: "authenticate sample_rt 2000 (snd ?login)
     (request0\<lparr>req_cookies := [''demo_token'' \<mapsto> ''jwt-demo'', ''auth_token'' \<mapsto> ''jwt-A'']\<rparr>) =
   Next (request0\<lparr>req_cookies := [''demo_token'' \<mapsto> ''jwt-demo'', ''auth_token'' \<mapsto> ''jwt-A''],
                  req_user := Some (demo_user grant1), req_agenceId := Some ''ag1''\<rparr>)"
    unfolding d1
    by (simp add: authenticate_def authenticate_demo_def JWT_SECRET_def demo_user_def
          sample_defs)
  from ok t(2) [of "[''demo_token'' \<mapsto> ''jwt-demo'']"]
       t(3) [of "[''demo_token'' \<mapsto> ''jwt-demo'']"] tok later real shadow
  show ?thesis by simp
qed

subsection \<open>Temporary access grants\<close>

text \<open>The three endpoints look the grant up by its token, then test it the same way.\<close>

lemma grant_lookup:
  assumes "accesTemporaires d = Table rows" and "distinct (map a_token rows)"
      and "g \<in> set rows" and "req_params req ''token'' = Some (a_token g)"
  shows "select_first (\<lambda>a. sql_eq (a_token a) (req_params req ''token'')) (accesTemporaires d) =
           Returned (Some g)"
  using assms find_by_key [of a_token rows g] by simp

lemma endpoints_inactive:
  assumes "select_first (\<lambda>a. sql_eq (a_token a) (req_params req ''token'')) (accesTemporaires d) =
           Returned (Some g)" and "\<not> a_actif g"
  shows "res_status (demo_validate now d req) = 403"
    and "res_status (demo_access rt now d req) = 403"
    and "res_cookies (demo_access rt now d req) = []"
    and "res_status (valider now d req) = 403"
  using assms
  by (simp_all add: demo_validate_def demo_access_def valider_def error_response_def
        json_response_def)

lemma endpoints_expired:
  assumes "select_first (\<lambda>a. sql_eq (a_token a) (req_params req ''token'')) (accesTemporaires d) =
           Returned (Some g)" and "a_dateExpiration g = Some e" and "e < now"
  shows "res_status (demo_validate now d req) = 403"
    and "res_status (demo_access rt now d req) = 403"
    and "res_cookies (demo_access rt now d req) = []"
    and "res_status (valider now d req) = 403"
  using assms
  by (simp_all add: demo_validate_def demo_access_def valider_def error_response_def
        json_response_def)

lemma endpoints_accept:
  assumes "res_status (demo_validate now d req) = 200 \<or>
           res_status (demo_access rt now d req) = 200 \<or>
           res_status (valider now d req) = 200"
  shows "\<exists>rows g. accesTemporaires d = Table rows \<and>
           find (\<lambda>a. sql_eq (a_token a) (req_params req ''token'')) rows = Some g \<and>
           a_actif g \<and>
           (a_dateExpiration g = None \<or> (\<exists>e. a_dateExpiration g = Some e \<and> now \<le> e))"
proof (cases "accesTemporaires d")
  case Unreachable
  with assms show ?thesis
    by (simp add: demo_validate_def demo_access_def valider_def error_response_def
        json_response_def)
next
  case (Table rows)
  show ?thesis
  proof (cases "find (\<lambda>a. sql_eq (a_token a) (req_params req ''token'')) rows")
    case None
    with assms Table show ?thesis
      by (simp add: demo_validate_def demo_access_def valider_def error_response_def
          json_response_def)
  next
    case (Some g)
    have "a_actif g"
      using assms Table Some
      by (auto simp: demo_validate_def demo_access_def valider_def error_response_def
          json_response_def split: if_splits)
    moreover have "a_dateExpiration g = None \<or> (\<exists>e. a_dateExpiration g = Some e \<and> now \<le> e)"
      using assms Table Some
      by (cases "a_dateExpiration g")
         (auto simp: demo_validate_def demo_access_def valider_def error_response_def
          json_response_def split: if_splits)
    ultimately show ?thesis using Table Some by simp
  qed
qed

text \<open>
  Claim C7, exact at the boundary instant. The public validation endpoints
  (\<^verbatim>\<open>/api/demo/validate\<close> and \<^verbatim>\<open>/api/acces-temporaires/valider\<close>) and the exchange
  endpoint (\<^verbatim>\<open>/api/demo/access\<close>), asked with the token of a grant of the table (tokens
  are unique, a constraint of the schema): a grant whose \<open>actif\<close> is false is answered 403
  whatever its expiration, and the exchange sets no cookie; a grant whose expiration is
  before the current instant is answered 403 whatever its flag, and the exchange sets
  no cookie. An answer 200 of any of the three requires a grant with that token that is
  active and has no expiration or an expiration that is not before the current instant:
  at or after it.
\<close>

theorem temporary_access_rejection:
  "(\<forall>g. accesTemporaires d = Table rows \<and> distinct (map a_token rows) \<and> g \<in> set rows \<and>
        req_params req ''token'' = Some (a_token g) \<and> \<not> a_actif g \<longrightarrow>
        res_status (demo_validate now d req) = 403 \<and>
        res_status (valider now d req) = 403 \<and>
        res_status (demo_access rt now d req) = 403 \<and>
        res_cookies (demo_access rt now d req) = []) \<and>
   (\<forall>g e. accesTemporaires d = Table rows \<and> distinct (map a_token rows) \<and> g \<in> set rows \<and>
        req_params req ''token'' = Some (a_token g) \<and>
        a_dateExpiration g = Some e \<and> e < now \<longrightarrow>
        res_status (demo_validate now d req) = 403 \<and>
        res_status (valider now d req) = 403 \<and>
        res_status (demo_access rt now d req) = 403 \<and>
        res_cookies (demo_access rt now d req) = []) \<and>
   (res_status (demo_validate now d req) = 200 \<or>
    res_status (valider now d req) = 200 \<or>
    res_status (demo_access rt now d req) = 200 \<longrightarrow>
      (\<exists>rows' g. accesTemporaires d = Table rows' \<and> g \<in> set rows' \<and>
         req_params req ''token'' = Some (a_token g) \<and>
         a_actif g \<and>
         (a_dateExpiration g = None \<or> (\<exists>e. a_dateExpiration g = Some e \<and> now \<le> e))))"
proof (intro conjI allI impI)
  fix g
  assume h: "accesTemporaires d = Table rows \<and> distinct (map a_token rows) \<and> g \<in> set rows \<and>
        req_params req ''token'' = Some (a_token g) \<and> \<not> a_actif g"
  then have found: "select_first (\<lambda>a. sql_eq (a_token a) (req_params req ''token''))
                      (accesTemporaires d) = Returned (Some g)"
    using grant_lookup [of d rows g req] by blast
  from h have off: "\<not> a_actif g" by blast
  show "res_status (demo_validate now d req) = 403"
    and "res_status (valider now d req) = 403"
    and "res_status (demo_access rt now d req) = 403"
    and "res_cookies (demo_access rt now d req) = []"
    using endpoints_inactive [OF found off] by simp_all
next
  fix g e
  assume h: "accesTemporaires d = Table rows \<and> distinct (map a_token rows) \<and> g \<in> set rows \<and>
        req_params req ''token'' = Some (a_token g) \<and>
        a_dateExpiration g = Some e \<and> e < now"
  then have found: "select_first (\<lambda>a. sql_eq (a_token a) (req_params req ''token''))
                      (accesTemporaires d) = Returned (Some g)"
    using grant_lookup [of d rows g req] by blast
  from h have past: "a_dateExpiration g = Some e" "e < now" by blast+
  show "res_status (demo_validate now d req) = 403"
    and "res_status (valider now d req) = 403"
    and "res_status (demo_access rt now d req) = 403"
    and "res_cookies (demo_access rt now d req) = []"
    using endpoints_expired [OF found past] by simp_all
next
  assume "res_status (demo_validate now d req) = 200 \<or>
    res_status (valider now d req) = 200 \<or>
    res_status (demo_access rt now d req) = 200"
  then have "res_status (demo_validate now d req) = 200 \<or>
           res_status (demo_access rt now d req) = 200 \<or>
           res_status (valider now d req) = 200" by blast
  from endpoints_accept [OF this] obtain rows' g where
    g: "accesTemporaires d = Table rows'"
       "find (\<lambda>a. sql_eq (a_token a) (req_params req ''token'')) rows' = Some g"
       "a_actif g"
       "a_dateExpiration g = None \<or> (\<exists>e. a_dateExpiration g = Some e \<and> now \<le> e)"
    by blast
  from g(2) have "g \<in> set rows'" and "sql_eq (a_token g) (req_params req ''token'')"
    by (auto simp: find_Some_iff)
  then have "g \<in> set rows' \<and> req_params req ''token'' = Some (a_token g)"
    by (cases "req_params req ''token''") auto
  with g show "\<exists>rows' g. accesTemporaires d = Table rows' \<and> g \<in> set rows' \<and>
         req_params req ''token'' = Some (a_token g) \<and>
         a_actif g \<and>
         (a_dateExpiration g = None \<or> (\<exists>e. a_dateExpiration g = Some e \<and> now \<le> e))"
    by blast
qed

theorem temporary_access_rejection_witness:
  "res_status (demo_validate 3000 (store0\<lparr>accesTemporaires := Table [grant1\<lparr>a_actif := False\<rparr>]\<rparr>)
                 (request0\<lparr>req_params := [''token'' \<mapsto> ''share-1'']\<rparr>)) = 403 \<and>
   res_status (valider 3000 (store0\<lparr>accesTemporaires := Table [grant1\<lparr>a_actif := False\<rparr>]\<rparr>)
                 (request0\<lparr>req_params := [''token'' \<mapsto> ''share-1'']\<rparr>)) = 403 \<and>
   res_status (demo_access sample_rt 3000
                 (store0\<lparr>accesTemporaires := Table [grant1\<lparr>a_actif := False\<rparr>]\<rparr>)
                 (request0\<lparr>req_params := [''token'' \<mapsto> ''share-1'']\<rparr>)) = 403 \<and>
   res_status (demo_validate 6000 store0 (request0\<lparr>req_params := [''token'' \<mapsto> ''share-1'']\<rparr>)) = 403 \<and>
   res_status (valider 6000 store0 (request0\<lparr>req_params := [''token'' \<mapsto> ''share-1'']\<rparr>)) = 403 \<and>
   res_status (demo_access sample_rt 6000 store0
                 (request0\<lparr>req_params := [''token'' \<mapsto> ''share-1'']\<rparr>)) = 403 \<and>
   res_cookies (demo_access sample_rt 6000 store0
                 (request0\<lparr>req_params := [''token'' \<mapsto> ''share-1'']\<rparr>)) = [] \<and>
   res_status (demo_access sample_rt 3000 store0
                 (request0\<lparr>req_params := [''token'' \<mapsto> ''share-1'']\<rparr>)) = 200 \<and>
   (\<exists>rows' g. accesTemporaires store0 = Table rows' \<and> g \<in> set rows' \<and>
         req_params (request0\<lparr>req_params := [''token'' \<mapsto> ''share-1'']\<rparr>) ''token'' =
           Some (a_token g) \<and>
         a_actif g \<and>
         (a_dateExpiration g = None \<or> (\<exists>e. a_dateExpiration g = Some e \<and> 3000 \<le> e)))"
proof -
  let ?req = "request0\<lparr>req_params := [''token'' \<mapsto> ''share-1'']\<rparr>"
  let ?off = "grant1\<lparr>a_actif := False\<rparr>"
  let ?revoked = "store0\<lparr>accesTemporaires := Table [?off]\<rparr>"
  have h1: "accesTemporaires ?revoked = Table [?off] \<and> distinct (map a_token [?off]) \<and>
            ?off \<in> set [?off] \<and> req_params ?req ''token'' = Some (a_token ?off) \<and> \<not> a_actif ?off"
    by (simp add: sample_defs)
  note r1 = temporary_access_rejection [of ?revoked "[?off]" ?req 3000 sample_rt,
              THEN conjunct1, rule_format, OF h1]
  have h2: "accesTemporaires store0 = Table [grant1] \<and> distinct (map a_token [grant1]) \<and>
            grant1 \<in> set [grant1] \<and> req_params ?req ''token'' = Some (a_token grant1) \<and>
            a_dateExpiration grant1 = Some 5000 \<and> (5000::nat) < 6000"
    by (simp add: sample_defs)
  note r2 = temporary_access_rejection [of store0 "[grant1]" ?req 6000 sample_rt,
              THEN conjunct2, THEN conjunct1, rule_format, OF h2]
  have ok: "res_status (demo_access sample_rt 3000 store0 ?req) = 200"
    by (simp add: demo_access_def error_response_def sample_defs)
  then have h3: "res_status (demo_validate 3000 store0 ?req) = 200 \<or>
    res_status (valider 3000 store0 ?req) = 200 \<or>
    res_status (demo_access sample_rt 3000 store0 ?req) = 200" by blast
  note r3 = temporary_access_rejection [of store0 "[grant1]" ?req 3000 sample_rt,
              THEN conjunct2, THEN conjunct2, rule_format, OF h3]
  from r1 r2 ok r3 show ?thesis by blast
qed

text \<open>
  The boundary instant. The claim as written has acceptance require an expiration in the
  future. The three endpoints refuse an expiration that is before the current instant,
  so at the very instant of its expiration (5000) the grant of the deployment, active
  and found by its token, is still answered 200 by each of them, and the exchange sets
  the demo cookie, although its expiration is not after that instant. The middleware
  tests the same grant strictly, and refuses the demo cookie at that instant.
\<close>

theorem temporary_access_boundary_counterexample:
  "accesTemporaires store0 = Table [grant1] \<and>
   a_token grant1 = ''share-1'' \<and>
   a_actif grant1 \<and>
   a_dateExpiration grant1 = Some 5000 \<and>
   \<not> (5000 :: nat) < 5000 \<and>
   res_status (demo_validate 5000 store0
                 (request0\<lparr>req_params := [''token'' \<mapsto> ''share-1'']\<rparr>)) = 200 \<and>
   res_status (valider 5000 store0
                 (request0\<lparr>req_params := [''token'' \<mapsto> ''share-1'']\<rparr>)) = 200 \<and>
   res_status (demo_access sample_rt 5000 store0
                 (request0\<lparr>req_params := [''token'' \<mapsto> ''share-1'']\<rparr>)) = 200 \<and>
   res_cookies (demo_access sample_rt 5000 store0
                  (request0\<lparr>req_params := [''token'' \<mapsto> ''share-1'']\<rparr>)) =
     [SetCookie ''demo_token'' ''jwt-demo'' (demo_cookie_options sample_rt)] \<and>
   authenticate_demo sample_rt 5000 store0
     (request0\<lparr>req_cookies := [''demo_token'' \<mapsto> ''jwt-demo'']\<rparr>) = None"
  by (simp add: handler_defs sample_defs)

end
